theory Spec2Isabelle
  imports Main
begin

section \<open>Python values\<close>

text \<open>
  The service (\<^verbatim>\<open>src/main.py\<close>) is a Flask handler that renders a page, collects at most
  one linked file, asks a reasoning backend what to do and posts the answer. Everything
  it touches outside its own code (the browser, HTTP, the PDF library, the backend SDK,
  \<^verbatim>\<open>json.loads\<close>, \<^verbatim>\<open>int\<close>, \<^verbatim>\<open>urljoin\<close>) is a field of the environment record
  \<open>env\<close> below: a theorem holds for every behaviour of these libraries.

  Exceptions are values. Every constructor carries the text \<^verbatim>\<open>str(e)\<close> gives.
\<close>

datatype exn =
    ValueError string
  | HTTPError string
  | AttributeError string
  | JSONDecodeError string
  | PWTimeout string
  | OtherError string

fun exn_message :: "exn \<Rightarrow> string" where
  "exn_message (ValueError m) = m"
| "exn_message (HTTPError m) = m"
| "exn_message (AttributeError m) = m"
| "exn_message (JSONDecodeError m) = m"
| "exn_message (PWTimeout m) = m"
| "exn_message (OtherError m) = m"

text \<open>
  A decoded JSON document. Numbers are integers: floating point values are outside the
  model.
\<close>

datatype json =
    JNull
  | JBool bool
  | JInt int
  | JStr string
  | JArr "json list"
  | JObj "(string \<times> json) list"

text \<open>
  Python values as the handler sees them. A \<^verbatim>\<open>dict\<close> is a mutable object: the value is
  a reference \<open>PRef a\<close> and the object lives in the heap at address \<open>a\<close>, so that two
  names for one object see each other's writes. Lists are never written to by this
  program and stay values. A \<^verbatim>\<open>dict\<close> keeps its keys in insertion order, and an
  assignment to a key it has keeps the key's place.
\<close>

type_synonym addr = nat

datatype pyval =
    PNone
  | PBool bool
  | PInt int
  | PStr string
  | PList "pyval list"
  | PRef addr

type_synonym pydict = "(string \<times> pyval) list"

type_synonym heap = "pydict list"

definition heap_get :: "heap \<Rightarrow> addr \<Rightarrow> pydict" where
  "heap_get h a = (if a < length h then h ! a else [])"

definition dict_get :: "pydict \<Rightarrow> string \<Rightarrow> pyval" where
  "dict_get d k = (case map_of d k of None \<Rightarrow> PNone | Some v \<Rightarrow> v)"

fun dict_set :: "pydict \<Rightarrow> string \<Rightarrow> pyval \<Rightarrow> pydict" where
  "dict_set [] k v = [(k, v)]"
| "dict_set ((k', v') # d) k v =
     (if k' = k then (k', v) # d else (k', v') # dict_set d k v)"

text \<open>\<^verbatim>\<open>obj[k] = v\<close> on the dict object at address \<open>a\<close>.\<close>

definition set_item :: "heap \<Rightarrow> addr \<Rightarrow> string \<Rightarrow> pyval \<Rightarrow> heap" where
  "set_item h a k v = h[a := dict_set (heap_get h a) k v]"

text \<open>A dict display \<^verbatim>\<open>{...}\<close> builds a fresh object.\<close>

definition new_dict :: "heap \<Rightarrow> pydict \<Rightarrow> pyval \<times> heap" where
  "new_dict h d = (PRef (length h), h @ [d])"

fun is_dict :: "pyval \<Rightarrow> bool" where
  "is_dict (PRef a) = True"
| "is_dict _ = False"

fun py_truthy :: "heap \<Rightarrow> pyval \<Rightarrow> bool" where
  "py_truthy h PNone = False"
| "py_truthy h (PBool b) = b"
| "py_truthy h (PInt i) = (i \<noteq> 0)"
| "py_truthy h (PStr s) = (s \<noteq> [])"
| "py_truthy h (PList xs) = (xs \<noteq> [])"
| "py_truthy h (PRef a) = (heap_get h a \<noteq> [])"

text \<open>
  \<^verbatim>\<open>json.loads\<close> and \<^verbatim>\<open>request.get_json\<close> build fresh objects for the document they
  decoded: one heap cell for every JSON object, children first. A key that occurs twice
  keeps its first place and its last value, as \<^verbatim>\<open>dict\<close> does.
\<close>

fun alloc :: "json \<Rightarrow> heap \<Rightarrow> pyval \<times> heap"
  and alloc_list :: "json list \<Rightarrow> heap \<Rightarrow> pyval list \<times> heap"
  and alloc_fields :: "(string \<times> json) list \<Rightarrow> pydict \<Rightarrow> heap \<Rightarrow> pydict \<times> heap"
where
  "alloc JNull h = (PNone, h)"
| "alloc (JBool b) h = (PBool b, h)"
| "alloc (JInt i) h = (PInt i, h)"
| "alloc (JStr s) h = (PStr s, h)"
| "alloc (JArr xs) h = (case alloc_list xs h of (vs, h') \<Rightarrow> (PList vs, h'))"
| "alloc (JObj fs) h = (case alloc_fields fs [] h of (d, h') \<Rightarrow> new_dict h' d)"
| "alloc_list [] h = ([], h)"
| "alloc_list (x # xs) h =
     (case alloc x h of (v, h1) \<Rightarrow>
        (case alloc_list xs h1 of (vs, h2) \<Rightarrow> (v # vs, h2)))"
| "alloc_fields [] d h = (d, h)"
| "alloc_fields ((k, x) # fs) d h =
     (case alloc x h of (v, h1) \<Rightarrow> alloc_fields fs (dict_set d k v) h1)"

section \<open>Strings\<close>

text \<open>
  \<^verbatim>\<open>str.find\<close> and \<^verbatim>\<open>str.rfind\<close> for a one-character needle: the index of the first
  (last) occurrence, or \<open>-1\<close>.
\<close>

fun py_find :: "char \<Rightarrow> string \<Rightarrow> int" where
  "py_find c [] = -1"
| "py_find c (x # xs) =
     (if x = c then 0 else (let r = py_find c xs in if r = -1 then -1 else r + 1))"

definition py_rfind :: "char \<Rightarrow> string \<Rightarrow> int" where
  "py_rfind c s =
     (let r = py_find c (rev s) in if r = -1 then -1 else int (length s) - 1 - r)"

text \<open>The slice \<^verbatim>\<open>s[i:j]\<close> for indices that are not negative.\<close>

definition py_slice :: "string \<Rightarrow> nat \<Rightarrow> nat \<Rightarrow> string" where
  "py_slice s i j = take (j - i) (drop i s)"

definition startswith :: "string \<Rightarrow> string \<Rightarrow> bool" where
  "startswith s p = (take (length p) s = p)"

definition endswith :: "string \<Rightarrow> string \<Rightarrow> bool" where
  "endswith s p = (length p \<le> length s \<and> drop (length s - length p) s = p)"

fun py_join :: "string \<Rightarrow> string list \<Rightarrow> string" where
  "py_join sep [] = []"
| "py_join sep [x] = x"
| "py_join sep (x # y # ys) = x @ sep @ py_join sep (y # ys)"

section \<open>The response parser\<close>

text \<open>
  Lines 144 to 150 of \<^verbatim>\<open>call_gemini_for_solution\<close>: the text handed to \<^verbatim>\<open>json.loads\<close>.
  \<^verbatim>\<open>
  start = text_out.find("{")
  end = text_out.rfind("}")
  json_text = (text_out[start : end + 1]
               if start != -1 and end != -1 and end > start else text_out)
  \<close>
\<close>

definition json_text :: "string \<Rightarrow> string" where
  "json_text text_out =
     (let start = py_find (CHR ''{'') text_out;
          end' = py_rfind (CHR ''}'') text_out
      in if start \<noteq> -1 \<and> end' \<noteq> -1 \<and> end' > start
         then py_slice text_out (nat start) (nat (end' + 1))
         else text_out)"

text \<open>Lines 144 to 151: \<^verbatim>\<open>json.loads(json_text)\<close>, for a decoder \<open>loads\<close>.\<close>

definition parse_reply :: "(string \<Rightarrow> exn + json) \<Rightarrow> string \<Rightarrow> exn + json" where
  "parse_reply loads text_out = loads (json_text text_out)"

section \<open>The environment\<close>

text \<open>
  What the backend SDK hands back: any Python value, or an object with attributes. An
  attribute is a value, or a property that raises when it is read.
\<close>

datatype rval =
    RNone
  | RBool bool
  | RInt int
  | RStr string
  | RList "rval list"
  | RDict "(string \<times> rval) list"
  | RObj string "(string \<times> (exn + rval)) list"

datatype attr = AttrMissing | AttrRaises exn | AttrVal rval

type_synonym bytes = "char list"

text \<open>
  The response of \<^verbatim>\<open>requests.get(url, stream=True)\<close>: its status code, the text of
  the error \<^verbatim>\<open>raise_for_status()\<close> builds for it, the two headers as the strings
  \<^verbatim>\<open>headers.get\<close> finds, and \<open>resp_content\<close>, the outcome of reading the body.
\<close>

record http_response =
  resp_status_code :: nat
  resp_error_message :: string
  resp_content_length :: "string option"
  resp_content_type :: "string option"
  resp_content :: "exn + bytes"

text \<open>
  \<^verbatim>\<open>Response.raise_for_status()\<close> of the HTTP library: an \<^verbatim>\<open>HTTPError\<close> for a status
  code from 400 to 599 (client and server errors), and nothing for any other code.
\<close>

definition raise_for_status :: "http_response \<Rightarrow> exn option" where
  "raise_for_status resp =
     (if 400 \<le> resp_status_code resp \<and> resp_status_code resp < 600
      then Some (HTTPError (resp_error_message resp)) else None)"

datatype wait_until = NetworkIdle | Load

record anchor =
  anchor_href :: "exn + string option"

text \<open>
  A browser page in the state a navigation left it, as the calls of the handler find
  it. Each of them may raise: \<^verbatim>\<open>page.content()\<close>; \<^verbatim>\<open>page.query_selector("body")\<close>,
  \<open>True\<close> when it finds an element; \<^verbatim>\<open>page.inner_text("body")\<close>;
  \<^verbatim>\<open>page.query_selector_all("a")\<close>, the \<^verbatim>\<open>a\<close> elements in document order; and
  \<^verbatim>\<open>context.close()\<close> and \<^verbatim>\<open>browser.close()\<close>, each \<open>None\<close> when it returns and the
  exception when it raises.
\<close>

record page =
  page_content :: "exn + string"
  page_query_body :: "exn + bool"
  page_inner_text :: "exn + string"
  page_anchors :: "exn + anchor list"
  page_context_close :: "exn option"
  page_browser_close :: "exn option"

record file_entry =
  fe_filename :: string
  fe_bytes :: bytes
  fe_text :: "string option"
  fe_is_text :: bool

record file_info =
  fi_filename :: string
  fi_text_preview :: "string option"
  fi_base64 :: "string option"

text \<open>The \<^verbatim>\<open>user_input\<close> dict of the prompt: \<^verbatim>\<open>HTML\<close>, \<^verbatim>\<open>TEXT\<close> and \<^verbatim>\<open>FILES\<close>.\<close>

record reasoning_request =
  rq_html :: string
  rq_text :: string
  rq_files :: "file_info list"

record post_reply =
  reply_status :: int
  reply_json :: "exn + json"
  reply_text :: string

text \<open>The calls that leave the process, in the order they are made.\<close>

datatype event =
    Goto wait_until
  | HttpGet string
  | ReadBody string
  | GenerateContent reasoning_request
  | HttpPost pyval pydict


record env =
  env_quiz_secret :: "string option"
  env_new_page :: "exn + page"
  env_goto :: "page \<Rightarrow> string \<Rightarrow> wait_until \<Rightarrow> nat \<Rightarrow> exn option \<times> page"
  env_get :: "string \<Rightarrow> exn + http_response"
  env_int :: "string \<Rightarrow> exn + int"
  env_urljoin :: "string \<Rightarrow> string \<Rightarrow> exn + string"
  env_urlparse_path :: "string \<Rightarrow> exn + string"
  env_lower :: "string \<Rightarrow> string"
  env_decode_utf8 :: "bytes \<Rightarrow> exn + string"
  env_pdf_pages :: "bytes \<Rightarrow> exn + (exn + string option) list"
  env_b64encode :: "bytes \<Rightarrow> string"
  env_generate_content :: "reasoning_request \<Rightarrow> exn + rval"
  env_str :: "rval \<Rightarrow> exn + string"
  env_json_decode :: "string \<Rightarrow> exn + json"
  env_post :: "pyval \<Rightarrow> pydict \<Rightarrow> heap \<Rightarrow> exn + post_reply"

section \<open>The reasoning client\<close>

text \<open>
  \<^verbatim>\<open>getattr\<close> on a response value. The built-in types have none of the attributes the
  code asks for. A property that raises \<^verbatim>\<open>AttributeError\<close> counts as missing, which
  is what \<^verbatim>\<open>hasattr\<close> and \<^verbatim>\<open>getattr(_, _, None)\<close> make of it.
\<close>

fun py_getattr :: "rval \<Rightarrow> string \<Rightarrow> attr" where
  "py_getattr (RObj cls attrs) name =
     (case map_of attrs name of
        None \<Rightarrow> AttrMissing
      | Some (Inl (AttributeError m)) \<Rightarrow> AttrMissing
      | Some (Inl e) \<Rightarrow> AttrRaises e
      | Some (Inr v) \<Rightarrow> AttrVal v)"
| "py_getattr _ name = AttrMissing"

fun rtruthy :: "rval \<Rightarrow> bool" where
  "rtruthy RNone = False"
| "rtruthy (RBool b) = b"
| "rtruthy (RInt i) = (i \<noteq> 0)"
| "rtruthy (RStr s) = (s \<noteq> [])"
| "rtruthy (RList xs) = (xs \<noteq> [])"
| "rtruthy (RDict d) = (d \<noteq> [])"
| "rtruthy (RObj cls attrs) = True"

text \<open>
  \<^verbatim>\<open>
  content = item.get("content")
  if isinstance(content, list) and len(content) > 0:
      first = content[0]
      if isinstance(first, dict) and "text" in first:
          return first["text"]
  \<close>
\<close>

definition content_first_text :: "(string \<times> rval) list \<Rightarrow> rval option" where
  "content_first_text d =
     (case map_of d ''content'' of
        Some (RList (RDict first # rest)) \<Rightarrow> map_of first ''text''
      | _ \<Rightarrow> None)"

fun scan_output_items :: "rval list \<Rightarrow> rval option" where
  "scan_output_items [] = None"
| "scan_output_items (item # items) =
     (case item of
        RDict d \<Rightarrow>
          (case content_first_text d of
             Some v \<Rightarrow> Some v
           | None \<Rightarrow>
               (case map_of d ''text'' of
                  Some v \<Rightarrow> Some v
                | None \<Rightarrow> scan_output_items items))
      | _ \<Rightarrow> scan_output_items items)"

text \<open>The first \<^verbatim>\<open>try\<close> block of the extraction: \<open>None\<close> when it returns nothing.\<close>

definition from_output :: "rval \<Rightarrow> rval option" where
  "from_output resp =
     (case py_getattr resp ''output'' of
        AttrVal out \<Rightarrow>
          (if rtruthy out then
             (case out of
                RList items \<Rightarrow> scan_output_items items
              | RDict d \<Rightarrow> content_first_text d
              | _ \<Rightarrow> None)
           else None)
      | _ \<Rightarrow> None)"

text \<open>The second \<^verbatim>\<open>try\<close> block: the legacy \<^verbatim>\<open>generations\<close> list.\<close>

definition from_generations :: "rval \<Rightarrow> rval option" where
  "from_generations resp =
     (case py_getattr resp ''generations'' of
        AttrVal (RList (g0 # rest)) \<Rightarrow>
          (case (case g0 of RDict d \<Rightarrow> map_of d ''text'' | _ \<Rightarrow> None) of
             Some v \<Rightarrow> Some v
           | None \<Rightarrow>
               (case py_getattr g0 ''text'' of AttrVal v \<Rightarrow> Some v | _ \<Rightarrow> None))
      | _ \<Rightarrow> None)"

text \<open>
  \<^verbatim>\<open>_extract_text_from_gemini_response\<close>. The test \<^verbatim>\<open>hasattr(resp, "text")\<close> stands
  outside every \<^verbatim>\<open>try\<close>: a property \<^verbatim>\<open>text\<close> that raises anything but
  \<^verbatim>\<open>AttributeError\<close> leaves the function as an exception.
\<close>

definition extract_text_from_gemini_response ::
  "(rval \<Rightarrow> exn + string) \<Rightarrow> rval \<Rightarrow> exn + rval" where
  "extract_text_from_gemini_response str_of resp =
     (case py_getattr resp ''text'' of
        AttrRaises e \<Rightarrow> Inl e
      | a \<Rightarrow>
          (case (case a of AttrVal v \<Rightarrow> if rtruthy v then Some v else None | _ \<Rightarrow> None) of
             Some v \<Rightarrow> Inr v
           | None \<Rightarrow>
               (case from_output resp of
                  Some v \<Rightarrow> Inr v
                | None \<Rightarrow>
                    (case from_generations resp of
                       Some v \<Rightarrow> Inr v
                     | None \<Rightarrow>
                         (case str_of resp of
                            Inr s \<Rightarrow> Inr (RStr s)
                          | Inl e \<Rightarrow> Inr (RStr []))))))"

fun py_type_name :: "rval \<Rightarrow> string" where
  "py_type_name RNone = ''NoneType''"
| "py_type_name (RBool b) = ''bool''"
| "py_type_name (RInt i) = ''int''"
| "py_type_name (RStr s) = ''str''"
| "py_type_name (RList xs) = ''list''"
| "py_type_name (RDict d) = ''dict''"
| "py_type_name (RObj cls attrs) = cls"

definition quoted :: "string \<Rightarrow> string" where
  "quoted s = CHR 0x27 # s @ [CHR 0x27]"

text \<open>
  What \<^verbatim>\<open>text_out.find("{")\<close> raises when \<open>text_out\<close> is not a string: none of the
  other built-in types has a \<^verbatim>\<open>find\<close>, and an attribute of an SDK object is a value
  here, not something to call.
\<close>

definition find_failure :: "rval \<Rightarrow> exn" where
  "find_failure v =
     (case py_getattr v ''find'' of
        AttrMissing \<Rightarrow>
          AttributeError (quoted (py_type_name v) @ '' object has no attribute '' @ quoted ''find'')
      | AttrRaises e \<Rightarrow> e
      | AttrVal f \<Rightarrow> OtherError (quoted (py_type_name f) @ '' object is not callable''))"

definition files_info :: "env \<Rightarrow> file_entry list \<Rightarrow> file_info list" where
  "files_info E collected_files =
     map (\<lambda>f.
       if fe_is_text f then
         \<lparr>fi_filename = fe_filename f,
          fi_text_preview = Some (take 5000 (case fe_text f of None \<Rightarrow> [] | Some t \<Rightarrow> t)),
          fi_base64 = None\<rparr>
       else
         \<lparr>fi_filename = fe_filename f,
          fi_text_preview = None,
          fi_base64 = Some (take 10000 (env_b64encode E (fe_bytes f)))\<rparr>) collected_files"

definition user_input :: "env \<Rightarrow> string \<Rightarrow> string \<Rightarrow> file_entry list \<Rightarrow> reasoning_request" where
  "user_input E page_html page_text collected_files =
     \<lparr>rq_html = take 14000 page_html,
      rq_text = take 12000 page_text,
      rq_files = files_info E collected_files\<rparr>"

text \<open>
  The body of the \<^verbatim>\<open>try\<close> of \<^verbatim>\<open>call_gemini_for_solution\<close> (lines 140 to 152): the
  backend call, the extraction of its text, and the parse. \<open>Inl\<close> is an exception
  raised inside it.
\<close>

definition reasoning_attempt :: "env \<Rightarrow> reasoning_request \<Rightarrow> exn + json" where
  "reasoning_attempt E rq =
     (case env_generate_content E rq of
        Inl e \<Rightarrow> Inl e
      | Inr response \<Rightarrow>
          (case extract_text_from_gemini_response (env_str E) response of
             Inl e \<Rightarrow> Inl e
           | Inr (RStr text_out) \<Rightarrow> parse_reply (env_json_decode E) text_out
           | Inr v \<Rightarrow> Inl (find_failure v)))"

definition model_error_sentinel :: "exn \<Rightarrow> pydict" where
  "model_error_sentinel e =
     [(''answer'', PNone),
      (''submit_url'', PNone),
      (''payload'', PNone),
      (''reason'', PStr ''model_error''),
      (''model_exception'', PStr (exn_message e))]"

text \<open>
  \<^verbatim>\<open>call_gemini_for_solution\<close>: the value it returns, the heap with the objects it
  built, and the one backend call it made. The \<^verbatim>\<open>except Exception\<close> turns every
  exception of the attempt into the sentinel dict.
\<close>

definition call_gemini_for_solution ::
  "env \<Rightarrow> string \<Rightarrow> string \<Rightarrow> file_entry list \<Rightarrow> heap \<Rightarrow> (pyval \<times> heap) \<times> event list" where
  "call_gemini_for_solution E page_html page_text collected_files h =
     (let rq = user_input E page_html page_text collected_files
      in (case reasoning_attempt E rq of
            Inr solution \<Rightarrow> alloc solution h
          | Inl e \<Rightarrow> new_dict h (model_error_sentinel e),
          [GenerateContent rq]))"

section \<open>The bounded downloader\<close>

text \<open>\<^verbatim>\<open>int(resp.headers.get("content-length", 0) or 0)\<close>\<close>

definition content_length :: "env \<Rightarrow> http_response \<Rightarrow> exn + int" where
  "content_length E resp =
     (case resp_content_length resp of
        None \<Rightarrow> Inr 0
      | Some s \<Rightarrow> if s = [] then Inr 0 else env_int E s)"

text \<open>
  \<^verbatim>\<open>download_file(url, max_bytes=5_000_000)\<close> with the calls it made. The body of a
  streamed response is read by \<^verbatim>\<open>resp.content\<close> and not before.
\<close>

definition download_file ::
  "env \<Rightarrow> string \<Rightarrow> int \<Rightarrow> (exn + bytes \<times> string) \<times> event list" where
  "download_file E url max_bytes =
     (case env_get E url of
        Inl e \<Rightarrow> (Inl e, [HttpGet url])
      | Inr resp \<Rightarrow>
          (case raise_for_status resp of
             Some e \<Rightarrow> (Inl e, [HttpGet url])
           | None \<Rightarrow>
               (case content_length E resp of
                  Inl e \<Rightarrow> (Inl e, [HttpGet url])
                | Inr len \<Rightarrow>
                    if len \<noteq> 0 \<and> len > max_bytes
                    then (Inl (ValueError ''Remote file too large''), [HttpGet url])
                    else
                      (case resp_content resp of
                         Inl e \<Rightarrow> (Inl e, [HttpGet url, ReadBody url])
                       | Inr data \<Rightarrow>
                           if int (length data) > max_bytes
                           then (Inl (ValueError ''Downloaded file exceeds limit''),
                                 [HttpGet url, ReadBody url])
                           else (Inr (data, case resp_content_type resp of
                                              None \<Rightarrow> [] | Some t \<Rightarrow> t),
                                 [HttpGet url, ReadBody url])))))"

section \<open>Document text extraction\<close>

text \<open>
  The loop over \<^verbatim>\<open>pdf.pages\<close>: \<^verbatim>\<open>texts.append(page.extract_text() or "")\<close>. A page is
  the outcome of its \<^verbatim>\<open>extract_text()\<close>.
\<close>

fun page_texts :: "(exn + string option) list \<Rightarrow> string list \<Rightarrow> exn + string list" where
  "page_texts [] texts = Inr texts"
| "page_texts (p # ps) texts =
     (case p of
        Inl e \<Rightarrow> Inl e
      | Inr t \<Rightarrow> page_texts ps (texts @ [case t of None \<Rightarrow> [] | Some s \<Rightarrow> s]))"

text \<open>
  \<^verbatim>\<open>extract_text_from_pdf_bytes\<close>; \<open>None\<close> is Python's \<^verbatim>\<open>None\<close>. Writing the temporary
  file is taken to succeed.
\<close>

definition extract_text_from_pdf_bytes :: "env \<Rightarrow> bytes \<Rightarrow> string option" where
  "extract_text_from_pdf_bytes E pdf_bytes =
     (case env_pdf_pages E pdf_bytes of
        Inl e \<Rightarrow> None
      | Inr pages \<Rightarrow>
          (case page_texts pages [] of
             Inl e \<Rightarrow> None
           | Inr texts \<Rightarrow> Some (py_join [CHR 0x0A, CHR 0x0A] texts)))"

section \<open>The renderer and the resource collector\<close>

definition extensions :: "string list" where
  "extensions = [''.pdf'', ''.csv'', ''.xlsx'', ''.xls'', ''.json'', ''.zip'']"

text \<open>\<^verbatim>\<open>os.path.basename\<close> on a POSIX system: what follows the last slash.\<close>

definition basename :: "string \<Rightarrow> string" where
  "basename p = drop (nat (py_rfind (CHR ''/'') p + 1)) p"

text \<open>Lines 196 to 214: the entry built for a downloaded file.\<close>

definition make_file_entry :: "env \<Rightarrow> string \<Rightarrow> bytes \<Rightarrow> string \<Rightarrow> file_entry" where
  "make_file_entry E path data content_type =
     (let filename = (if basename path = [] then ''downloaded'' else basename path)
      in if startswith content_type ''text/'' \<or> endswith filename ''.csv''
            \<or> endswith filename ''.json''
         then (case env_decode_utf8 E data of
                 Inr t \<Rightarrow> \<lparr>fe_filename = filename, fe_bytes = data,
                           fe_text = Some t, fe_is_text = True\<rparr>
               | Inl e \<Rightarrow> \<lparr>fe_filename = filename, fe_bytes = data,
                           fe_text = None, fe_is_text = False\<rparr>)
         else if endswith filename ''.pdf''
         then \<lparr>fe_filename = filename, fe_bytes = data,
               fe_text = Some (case extract_text_from_pdf_bytes E data of
                                 None \<Rightarrow> [] | Some t \<Rightarrow> t),
               fe_is_text = True\<rparr>
         else \<lparr>fe_filename = filename, fe_bytes = data,
               fe_text = None, fe_is_text = False\<rparr>)"

text \<open>
  Lines 184 to 193, the first half of the loop body: the absolute URL and the
  lower-cased path of an anchor whose path ends in one of the extensions. \<open>None\<close> for
  an anchor the loop passes over without a download: no \<^verbatim>\<open>href\<close>, an exception, or
  another kind of path.
\<close>

definition candidate :: "env \<Rightarrow> string \<Rightarrow> anchor \<Rightarrow> (string \<times> string) option" where
  "candidate E url a =
     (case anchor_href a of
        Inl e \<Rightarrow> None
      | Inr None \<Rightarrow> None
      | Inr (Some href) \<Rightarrow>
          if href = [] then None
          else
            (case env_urljoin E url href of
               Inl e \<Rightarrow> None
             | Inr full \<Rightarrow>
                 (case env_urlparse_path E full of
                    Inl e \<Rightarrow> None
                  | Inr parsed_path \<Rightarrow>
                      (let path = env_lower E parsed_path
                       in if list_ex (endswith path) extensions
                          then Some (full, path) else None))))"

text \<open>
  The body of the loop over the anchors (lines 183 to 222) for one anchor: the file it
  collected, if any, and the calls it made. Every exception in it ends the anchor with
  nothing collected, as the two \<^verbatim>\<open>except Exception: ... continue\<close> do.
\<close>

definition process_anchor :: "env \<Rightarrow> string \<Rightarrow> anchor \<Rightarrow> file_entry option \<times> event list" where
  "process_anchor E url a =
     (case candidate E url a of
        None \<Rightarrow> (None, [])
      | Some (full, path) \<Rightarrow>
          (case download_file E full 5000000 of
             (Inl e, evs) \<Rightarrow> (None, evs)
           | (Inr (data, content_type), evs) \<Rightarrow>
               (Some (make_file_entry E path data content_type), evs)))"

text \<open>The loop: the first file collected is appended and ends it (\<^verbatim>\<open>break\<close>).\<close>

fun scan_anchors ::
  "env \<Rightarrow> string \<Rightarrow> anchor list \<Rightarrow> file_entry list \<Rightarrow> file_entry list \<times> event list" where
  "scan_anchors E url [] collected_files = (collected_files, [])"
| "scan_anchors E url (a # anchors) collected_files =
     (case process_anchor E url a of
        (Some file_entry, evs) \<Rightarrow> (collected_files @ [file_entry], evs)
      | (None, evs) \<Rightarrow>
          (case scan_anchors E url anchors collected_files of
             (files, evs') \<Rightarrow> (files, evs @ evs')))"

text \<open>
  Lines 168 to 178: the launch of the browser with a fresh context and page
  (\<open>env_new_page\<close>), and the navigation. A timeout of the first \<^verbatim>\<open>goto\<close> leads to the
  second, whose exceptions are all swallowed; any other exception of the first, and
  one of the launch, leaves the function.
\<close>

definition navigate :: "env \<Rightarrow> string \<Rightarrow> nat \<Rightarrow> (exn + page) \<times> event list" where
  "navigate E url timeout_ms =
     (case env_new_page E of
        Inl e \<Rightarrow> (Inl e, [])
      | Inr p0 \<Rightarrow>
          (case env_goto E p0 url NetworkIdle timeout_ms of
             (None, p) \<Rightarrow> (Inr p, [Goto NetworkIdle])
           | (Some (PWTimeout m), p) \<Rightarrow>
               (case env_goto E p url Load timeout_ms of
                  (r, p') \<Rightarrow> (Inr p', [Goto NetworkIdle, Goto Load]))
           | (Some e, p) \<Rightarrow> (Inl e, [Goto NetworkIdle])))"

text \<open>
  Line 180, with no \<^verbatim>\<open>try\<close> around it.
  \<^verbatim>\<open>
  visible_text = page.inner_text("body") if page.query_selector("body") else ""
  \<close>
\<close>

definition visible_text :: "page \<Rightarrow> exn + string" where
  "visible_text p =
     (case page_query_body p of
        Inl e \<Rightarrow> Inl e
      | Inr found \<Rightarrow> if found then page_inner_text p else Inr [])"

text \<open>Lines 223 and 224: \<^verbatim>\<open>context.close()\<close>, then \<^verbatim>\<open>browser.close()\<close>.\<close>

definition close_browser :: "page \<Rightarrow> exn option" where
  "close_browser p =
     (case page_context_close p of
        Some e \<Rightarrow> Some e
      | None \<Rightarrow> page_browser_close p)"

record render_result =
  rr_html :: string
  rr_text :: string
  rr_collected_files :: "file_entry list"

text \<open>
  \<^verbatim>\<open>render_page_and_collect\<close>. After the navigation nothing is guarded but the loop
  body: an exception of \<^verbatim>\<open>page.content()\<close>, of the two calls for the visible text, of
  \<^verbatim>\<open>query_selector_all\<close> or of one of the two \<^verbatim>\<open>close()\<close> leaves the function,
  whatever has been collected by then.
\<close>

definition render_page_and_collect ::
  "env \<Rightarrow> string \<Rightarrow> nat \<Rightarrow> (exn + render_result) \<times> event list" where
  "render_page_and_collect E url timeout_ms =
     (case navigate E url timeout_ms of
        (Inl e, evs) \<Rightarrow> (Inl e, evs)
      | (Inr p, evs) \<Rightarrow>
          (case page_content p of
             Inl e \<Rightarrow> (Inl e, evs)
           | Inr html \<Rightarrow>
               (case visible_text p of
                  Inl e \<Rightarrow> (Inl e, evs)
                | Inr visible \<Rightarrow>
                    (case page_anchors p of
                       Inl e \<Rightarrow> (Inl e, evs)
                     | Inr anchors \<Rightarrow>
                         (case scan_anchors E url anchors [] of
                            (files, evs') \<Rightarrow>
                              (case close_browser p of
                                 Some e \<Rightarrow> (Inl e, evs @ evs')
                               | None \<Rightarrow>
                                   (Inr \<lparr>rr_html = html, rr_text = visible,
                                         rr_collected_files = files\<rparr>,
                                    evs @ evs')))))))"

section \<open>The request handler\<close>

text \<open>The JSON bodies \<^verbatim>\<open>quiz_endpoint\<close> answers with; a solution is echoed by reference.\<close>

datatype outcome =
    InvalidJson
  | InvalidSecret
  | MissingFields
  | ModelFailed
  | NoPayloadFromModel pyval
  | NoSubmitUrl pyval
  | Submitted json int pyval pyval
  | ServerError string
  | Unhandled exn

text \<open>
  What a run of the handler leaves: the body and HTTP status of its answer, the heap
  that \<^verbatim>\<open>jsonify\<close> reads the echoed objects from, and the calls made.
\<close>

record result =
  rs_outcome :: outcome
  rs_status :: nat
  rs_heap :: heap
  rs_events :: "event list"

text \<open>
  Lines 251 to 254. \<open>s\<close> is the address of the \<^verbatim>\<open>solution\<close> dict.
  \<^verbatim>\<open>
  payload = solution.get("payload")
  submit_url = solution.get("submit_url")
  if payload is None and solution.get("answer") is not None and submit_url:
      payload = {"email": email, "secret": secret, "answer": solution["answer"]}
  \<close>
  Without the assignment, the name \<^verbatim>\<open>payload\<close> refers to the object stored in the
  solution itself.
\<close>

definition payload_for :: "heap \<Rightarrow> addr \<Rightarrow> pyval \<Rightarrow> pyval \<Rightarrow> pyval \<times> heap" where
  "payload_for h s email secret =
     (let payload = dict_get (heap_get h s) ''payload'';
          submit_url = dict_get (heap_get h s) ''submit_url'';
          answer = dict_get (heap_get h s) ''answer''
      in if payload = PNone \<and> answer \<noteq> PNone \<and> py_truthy h submit_url
         then new_dict h [(''email'', email), (''secret'', secret), (''answer'', answer)]
         else (payload, h))"

text \<open>\<^verbatim>\<open>resp.json()\<close>, or the status code and text when that raises (lines 270 to 273).\<close>

definition submit_response :: "post_reply \<Rightarrow> json" where
  "submit_response resp =
     (case reply_json resp of
        Inr j \<Rightarrow> j
      | Inl e \<Rightarrow> JObj [(''status_code'', JInt (reply_status resp)),
                        (''text'', JStr (reply_text resp))])"

text \<open>
  Lines 256 and 257, \<^verbatim>\<open>payload["email"] = email\<close> and \<^verbatim>\<open>payload["secret"] = secret\<close>,
  on the payload object at address \<open>p\<close>.
\<close>

definition identified :: "heap \<Rightarrow> addr \<Rightarrow> pyval \<Rightarrow> pyval \<Rightarrow> heap" where
  "identified h p email secret = set_item (set_item h p ''email'' email) p ''secret'' secret"

text \<open>
  Lines 266 to 268, for the solution at \<open>s\<close> and the payload at \<open>p\<close>.
  \<^verbatim>\<open>
  attach_b64 = solution.get("attachment_base64")
  if attach_b64:
      payload["attachment_base64"] = attach_b64
  \<close>
\<close>

definition attached :: "heap \<Rightarrow> addr \<Rightarrow> addr \<Rightarrow> heap" where
  "attached h s p =
     (let attach_b64 = dict_get (heap_get h s) ''attachment_base64''
      in if py_truthy h attach_b64 then set_item h p ''attachment_base64'' attach_b64 else h)"

text \<open>
  Lines 249 to 284, from the solution to the answer. An exception of
  \<^verbatim>\<open>requests.post\<close> reaches the handler's last \<^verbatim>\<open>except\<close> (line 285).
\<close>

definition submit :: "env \<Rightarrow> pyval \<Rightarrow> pyval \<Rightarrow> pyval \<Rightarrow> heap \<Rightarrow> result" where
  "submit E solution email secret h =
     (case solution of
        PRef s \<Rightarrow>
          (case payload_for h s email secret of
             (PRef p, h1) \<Rightarrow>
               (let h2 = identified h1 p email secret;
                    submit_url = dict_get (heap_get h s) ''submit_url''
                in if \<not> py_truthy h2 submit_url
                   then \<lparr>rs_outcome = NoSubmitUrl solution, rs_status = 200,
                         rs_heap = h2, rs_events = []\<rparr>
                   else
                     (let h3 = attached h2 s p
                      in (case env_post E submit_url (heap_get h3 p) h3 of
                            Inl e \<Rightarrow>
                              \<lparr>rs_outcome = ServerError (exn_message e), rs_status = 500,
                               rs_heap = h3,
                               rs_events = [HttpPost submit_url (heap_get h3 p)]\<rparr>
                          | Inr resp \<Rightarrow>
                              \<lparr>rs_outcome = Submitted (submit_response resp)
                                 (reply_status resp) submit_url solution,
                               rs_status = 200,
                               rs_heap = h3,
                               rs_events = [HttpPost submit_url (heap_get h3 p)]\<rparr>)))
           | (payload, h1) \<Rightarrow>
               \<lparr>rs_outcome = NoPayloadFromModel solution, rs_status = 500,
                rs_heap = h1, rs_events = []\<rparr>)
      | _ \<Rightarrow> \<lparr>rs_outcome = ModelFailed, rs_status = 500, rs_heap = h, rs_events = []\<rparr>)"

text \<open>
  The \<^verbatim>\<open>try\<close> block of the handler (lines 243 to 287) for a request that passed the
  checks. The browser takes a string; \<open>goto_rejects\<close> is what \<^verbatim>\<open>page.goto\<close> raises for
  any other value.
\<close>

definition solve ::
  "env \<Rightarrow> (pyval \<Rightarrow> exn) \<Rightarrow> pyval \<Rightarrow> pyval \<Rightarrow> pyval \<Rightarrow> heap \<Rightarrow> result" where
  "solve E goto_rejects url email secret h =
     (case url of
        PStr u \<Rightarrow>
          (case render_page_and_collect E u 30000 of
             (Inl e, evs) \<Rightarrow>
               \<lparr>rs_outcome = ServerError (exn_message e), rs_status = 500,
                rs_heap = h, rs_events = evs\<rparr>
           | (Inr page_data, evs) \<Rightarrow>
               (case call_gemini_for_solution E (rr_html page_data) (rr_text page_data)
                       (rr_collected_files page_data) h of
                  ((solution, h'), evs') \<Rightarrow>
                    (let r = submit E solution email secret h'
                     in r\<lparr>rs_events := evs @ evs' @ rs_events r\<rparr>)))
      | v \<Rightarrow>
          \<lparr>rs_outcome = ServerError (exn_message (goto_rejects v)), rs_status = 500,
           rs_heap = h, rs_events = []\<rparr>)"

fun pyval_type_name :: "pyval \<Rightarrow> string" where
  "pyval_type_name PNone = ''NoneType''"
| "pyval_type_name (PBool b) = ''bool''"
| "pyval_type_name (PInt i) = ''int''"
| "pyval_type_name (PStr s) = ''str''"
| "pyval_type_name (PList xs) = ''list''"
| "pyval_type_name (PRef a) = ''dict''"

text \<open>
  \<^verbatim>\<open>quiz_endpoint\<close>. \<open>body\<close> is the outcome of \<^verbatim>\<open>request.get_json(force=True)\<close>. The
  three \<^verbatim>\<open>data.get\<close> stand outside the \<^verbatim>\<open>try\<close>: a body that is not an object leaves
  the handler as an exception.
\<close>

definition quiz_endpoint :: "env \<Rightarrow> (pyval \<Rightarrow> exn) \<Rightarrow> exn + json \<Rightarrow> result" where
  "quiz_endpoint E goto_rejects body =
     (case body of
        Inl e \<Rightarrow> \<lparr>rs_outcome = InvalidJson, rs_status = 400, rs_heap = [], rs_events = []\<rparr>
      | Inr j \<Rightarrow>
          (case alloc j [] of
             (data, h) \<Rightarrow>
               if \<not> py_truthy h data
               then \<lparr>rs_outcome = InvalidJson, rs_status = 400, rs_heap = h, rs_events = []\<rparr>
               else
                 (case data of
                    PRef d \<Rightarrow>
                      (let email = dict_get (heap_get h d) ''email'';
                           secret = dict_get (heap_get h d) ''secret'';
                           url = dict_get (heap_get h d) ''url''
                       in if secret \<noteq> (case env_quiz_secret E of
                                           None \<Rightarrow> PNone | Some q \<Rightarrow> PStr q)
                          then \<lparr>rs_outcome = InvalidSecret, rs_status = 403,
                                rs_heap = h, rs_events = []\<rparr>
                          else if \<not> py_truthy h url \<or> \<not> py_truthy h email
                          then \<lparr>rs_outcome = MissingFields, rs_status = 400,
                                rs_heap = h, rs_events = []\<rparr>
                          else solve E goto_rejects url email secret h)
                  | v \<Rightarrow>
                      \<lparr>rs_outcome = Unhandled (AttributeError
                         (quoted (pyval_type_name v) @ '' object has no attribute ''
                          @ quoted ''get'')),
                       rs_status = 500, rs_heap = h, rs_events = []\<rparr>)))"

section \<open>A sample environment\<close>

text \<open>
  One concrete world to run the model in: a page whose first navigation times out
  and whose second is aborted but leaves the page readable, seven links (one without
  \<^verbatim>\<open>href\<close>, one to an HTML page, one that cannot be read, an archive announced as too
  large, a missing PDF, a CSV file and a JSON file), a reply with status 300, a backend
  that answers in prose, and a decoder that knows two texts. Every path of the sample is in lower case already, so its \<^verbatim>\<open>lower()\<close> is
  the identity; its \<^verbatim>\<open>int\<close> reads the three numbers that occur.
\<close>

definition demo_loads :: "string \<Rightarrow> exn + json" where
  \<open>demo_loads t =
     (if t = ''{"answer": 42, "submit_url": null, "payload": null}''
      then Inr (JObj [(''answer'', JInt 42), (''submit_url'', JNull), (''payload'', JNull)])
      else if t = ''[1, 2]'' then Inr (JArr [JInt 1, JInt 2])
      else Inl (JSONDecodeError ''Expecting value: line 1 column 1 (char 0)''))\<close>

definition demo_anchors :: "anchor list" where
  "demo_anchors =
     [\<lparr>anchor_href = Inr None\<rparr>,
      \<lparr>anchor_href = Inr (Some ''about.html'')\<rparr>,
      \<lparr>anchor_href = Inl (OtherError ''Element is not attached to the DOM'')\<rparr>,
      \<lparr>anchor_href = Inr (Some ''big.zip'')\<rparr>,
      \<lparr>anchor_href = Inr (Some ''gone.pdf'')\<rparr>,
      \<lparr>anchor_href = Inr (Some ''data.csv'')\<rparr>,
      \<lparr>anchor_href = Inr (Some ''more.json'')\<rparr>]"

definition demo_page :: page where
  "demo_page =
     \<lparr>page_content = Inr ''<html><body>Which file is largest?</body></html>'',
      page_query_body = Inr True,
      page_inner_text = Inr ''Which file is largest?'',
      page_anchors = Inr demo_anchors,
      page_context_close = None,
      page_browser_close = None\<rparr>"

definition blank_page :: page where
  "blank_page =
     \<lparr>page_content = Inr ''<html><head></head><body></body></html>'',
      page_query_body = Inr True,
      page_inner_text = Inr [],
      page_anchors = Inr [],
      page_context_close = None,
      page_browser_close = None\<rparr>"

definition demo_get :: "string \<Rightarrow> exn + http_response" where
  "demo_get u =
     (if u = ''https://x/big.zip'' then
        Inr \<lparr>resp_status_code = 200, resp_error_message = [],
             resp_content_length = Some ''6000000'',
             resp_content_type = Some ''application/zip'', resp_content = Inr ''PK''\<rparr>
      else if u = ''https://x/data.csv'' then
        Inr \<lparr>resp_status_code = 200, resp_error_message = [],
             resp_content_length = None,
             resp_content_type = Some ''text/csv'', resp_content = Inr ''a,b''\<rparr>
      else if u = ''https://x/more.json'' then
        Inr \<lparr>resp_status_code = 200, resp_error_message = [],
             resp_content_length = Some ''2'',
             resp_content_type = Some ''application/json'', resp_content = Inr ''{}''\<rparr>
      else if u = ''https://x/choices.json'' then
        Inr \<lparr>resp_status_code = 300, resp_error_message = [],
             resp_content_length = None,
             resp_content_type = Some ''text/html'', resp_content = Inr ''pick one''\<rparr>
      else
        Inr \<lparr>resp_status_code = 404,
             resp_error_message = ''404 Client Error: Not Found'',
             resp_content_length = Some ''9000000'',
             resp_content_type = None, resp_content = Inr []\<rparr>)"

definition demo_env :: env where
  "demo_env =
     \<lparr>env_quiz_secret = Some ''s'',
      env_new_page = Inr blank_page,
      env_goto = (\<lambda>p url w t.
         case w of
           NetworkIdle \<Rightarrow> (Some (PWTimeout ''Timeout 30000ms exceeded''), p)
         | Load \<Rightarrow> (Some (OtherError ''net::ERR_ABORTED''), demo_page)),
      env_get = demo_get,
      env_int = (\<lambda>s. if s = ''6000000'' then Inr 6000000
                       else if s = ''9000000'' then Inr 9000000
                       else if s = ''2'' then Inr 2
                       else Inl (ValueError ''invalid literal for int()'')),
      env_urljoin = (\<lambda>base href. Inr (''https://x/'' @ href)),
      env_urlparse_path = (\<lambda>full. Inr (drop 9 full)),
      env_lower = (\<lambda>s. s),
      env_decode_utf8 = (\<lambda>b. Inr b),
      env_pdf_pages = (\<lambda>b.
         if b = ''%PDF-1.7'' then Inr [Inr (Some ''one''), Inr None, Inr (Some ''three'')]
         else if b = ''%PDF-1.4'' then Inr [Inr (Some ''one''), Inl (OtherError ''bad page'')]
         else Inl (OtherError ''No /Root object'')),
      env_b64encode = (\<lambda>b. ''UEs=''),
      env_generate_content = (\<lambda>rq.
         Inr (RObj ''GenerateContentResponse''
                [(''text'', Inr (RStr ''I could not find the answer.''))])),
      env_str = (\<lambda>v. Inr ''response''),
      env_json_decode = demo_loads,
      env_post = (\<lambda>url body h.
         Inr \<lparr>reply_status = 200, reply_json = Inr (JObj [(''correct'', JBool True)]),
              reply_text = []\<rparr>)\<rparr>"

definition demo_request :: json where
  "demo_request =
     JObj [(''email'', JStr ''a@b.com''), (''secret'', JStr ''s''),
           (''url'', JStr ''https://x/quiz'')]"

definition demo_rejects :: "pyval \<Rightarrow> exn" where
  "demo_rejects v = OtherError ''Page.goto: url: expected string''"

text \<open>Three backends that fail: the call raises, the text property raises, the text is \<^verbatim>\<open>None\<close>.\<close>

definition failing_backend :: env where
  "failing_backend =
     demo_env\<lparr>env_generate_content := (\<lambda>rq. Inl (OtherError ''503 Service Unavailable''))\<rparr>"

definition raising_text_backend :: env where
  "raising_text_backend =
     demo_env\<lparr>env_generate_content := (\<lambda>rq.
        Inr (RObj ''GenerateContentResponse''
               [(''text'', Inl (ValueError ''The response has no candidates''))]))\<rparr>"

definition odd_shape_backend :: env where
  "odd_shape_backend =
     demo_env\<lparr>env_generate_content := (\<lambda>rq.
        Inr (RObj ''GenerateContentResponse''
               [(''output'', Inr (RList [RDict [(''text'', RNone)]]))]))\<rparr>"

text \<open>A backend whose reply decodes to a list.\<close>

definition list_backend :: env where
  "list_backend =
     demo_env\<lparr>env_generate_content := (\<lambda>rq.
        Inr (RObj ''GenerateContentResponse'' [(''text'', Inr (RStr ''[1, 2]''))]))\<rparr>"

text \<open>What rendering the sample page comes to, and the calls it takes.\<close>

definition demo_page_data :: render_result where
  "demo_page_data =
     \<lparr>rr_html = ''<html><body>Which file is largest?</body></html>'',
      rr_text = ''Which file is largest?'',
      rr_collected_files =
        [\<lparr>fe_filename = ''data.csv'', fe_bytes = ''a,b'',
          fe_text = Some ''a,b'', fe_is_text = True\<rparr>]\<rparr>"

definition demo_render_events :: "event list" where
  "demo_render_events =
     [Goto NetworkIdle, Goto Load, HttpGet ''https://x/big.zip'',
      HttpGet ''https://x/gone.pdf'', HttpGet ''https://x/data.csv'',
      ReadBody ''https://x/data.csv'']"

definition demo_user_input :: reasoning_request where
  "demo_user_input =
     \<lparr>rq_html = ''<html><body>Which file is largest?</body></html>'',
      rq_text = ''Which file is largest?'',
      rq_files = [\<lparr>fi_filename = ''data.csv'', fi_text_preview = Some ''a,b'',
                   fi_base64 = None\<rparr>]\<rparr>"

text \<open>
  Three solutions of the model, as \<^verbatim>\<open>json.loads\<close> leaves them in an empty heap: an
  answer without payload, a payload with an identity of the model's own, and a payload
  without a place to send it.
\<close>

definition blue_heap :: heap where
  "blue_heap =
     snd (alloc (JObj [(''answer'', JStr ''blue''), (''submit_url'', JStr ''https://x/test''),
                       (''payload'', JNull)]) [])"

definition forged_heap :: heap where
  "forged_heap =
     snd (alloc (JObj [(''answer'', JInt 7), (''submit_url'', JStr ''https://x/test''),
                       (''payload'', JObj [(''email'', JStr ''model@guess''),
                                           (''secret'', JStr ''guess''),
                                           (''answer'', JInt 7)]),
                       (''attachment_base64'', JStr ''UEs='')]) [])"

definition unsent_heap :: heap where
  "unsent_heap =
     snd (alloc (JObj [(''answer'', JInt 7), (''submit_url'', JNull),
                       (''payload'', JObj [(''email'', JStr ''model@guess''),
                                           (''answer'', JInt 7)])]) [])"







text \<open>The model definitions a concrete run unfolds.\<close>

lemmas run_defs =
  quiz_endpoint_def solve_def render_page_and_collect_def navigate_def process_anchor_def
  candidate_def visible_text_def close_browser_def download_file_def raise_for_status_def
  content_length_def make_file_entry_def basename_def
  py_rfind_def endswith_def startswith_def extensions_def extract_text_from_pdf_bytes_def
  call_gemini_for_solution_def user_input_def files_info_def reasoning_attempt_def
  extract_text_from_gemini_response_def from_output_def from_generations_def
  content_first_text_def find_failure_def quoted_def parse_reply_def json_text_def
  py_slice_def submit_def identified_def attached_def submit_response_def payload_for_def
  new_dict_def heap_get_def dict_get_def set_item_def model_error_sentinel_def Let_def

lemmas demo_defs =
  demo_env_def demo_get_def demo_page_def demo_anchors_def blank_page_def demo_loads_def
  demo_request_def

section \<open>The span handed to the decoder\<close>

lemma py_find_notin: "c \<notin> set s \<Longrightarrow> py_find c s = -1"
  by (induction s) (auto simp: Let_def)

lemma py_find_first: "c \<notin> set pre \<Longrightarrow> py_find c (pre @ c # rest) = int (length pre)"
  by (induction pre) (auto simp: Let_def)

lemma py_rfind_notin: "c \<notin> set s \<Longrightarrow> py_rfind c s = -1"
  by (simp add: py_rfind_def py_find_notin)

lemma py_rfind_last:
  assumes "c \<notin> set post"
  shows "py_rfind c (pre @ c # post) = int (length pre)"
proof -
  have "c \<notin> set (rev post)"
    using assms by simp
  then have "py_find c (rev post @ c # rev pre) = int (length post)"
    using py_find_first [of c "rev post" "rev pre"] by simp
  then show ?thesis
    by (simp add: py_rfind_def)
qed

lemma json_text_span:
  assumes "CHR ''{'' \<notin> set pre" and "CHR ''}'' \<notin> set post"
  shows "json_text (pre @ CHR ''{'' # mid @ CHR ''}'' # post) = CHR ''{'' # mid @ [CHR ''}'']"
proof -
  let ?s = "pre @ CHR ''{'' # mid @ CHR ''}'' # post"
  have first: "py_find (CHR ''{'') ?s = int (length pre)"
    using assms(1) by (rule py_find_first)
  have "?s = (pre @ CHR ''{'' # mid) @ CHR ''}'' # post"
    by simp
  then have last: "py_rfind (CHR ''}'') ?s = int (length pre + 1 + length mid)"
    using py_rfind_last [OF assms(2), of "pre @ CHR ''{'' # mid"] by simp
  have width: "nat (int (length pre + 1 + length mid) + 1) - nat (int (length pre))
      = Suc (Suc (length mid))"
    by simp
  have "take (Suc (Suc (length mid))) (CHR ''{'' # mid @ CHR ''}'' # post)
      = CHR ''{'' # mid @ [CHR ''}'']"
    by simp
  then have "py_slice ?s (nat (int (length pre))) (nat (int (length pre + 1 + length mid) + 1))
      = CHR ''{'' # mid @ [CHR ''}'']"
    unfolding py_slice_def width by simp
  then show ?thesis
    unfolding json_text_def first last by (simp add: Let_def)
qed

text \<open>A text with an opening brace and a closing brace after it splits around its span.\<close>

lemma span_exists:
  assumes "i < j" and "j < length s" and "s ! i = CHR ''{''" and "s ! j = CHR ''}''"
  shows "\<exists>pre mid post. s = pre @ CHR ''{'' # mid @ CHR ''}'' # post \<and>
           CHR ''{'' \<notin> set pre \<and> CHR ''}'' \<notin> set post"
proof -
  have "CHR ''{'' \<in> set s"
    using assms by (metis less_trans nth_mem)
  then obtain pre rest where s: "s = pre @ CHR ''{'' # rest" and pre: "CHR ''{'' \<notin> set pre"
    by (meson split_list_first)
  have "length pre \<le> i"
  proof (rule ccontr)
    assume "\<not> length pre \<le> i"
    then have "s ! i \<in> set pre"
      using s by (simp add: nth_append)
    then show False
      using pre assms(3) by simp
  qed
  then have "length pre < j"
    using assms(1) by simp
  then have "s ! j = rest ! (j - length pre - 1)" and "j - length pre - 1 < length rest"
    using s assms(2) by (auto simp: nth_append nth_Cons')
  then have "CHR ''}'' \<in> set rest"
    using assms(4) by (metis nth_mem)
  then obtain mid post where "rest = mid @ CHR ''}'' # post" and "CHR ''}'' \<notin> set post"
    by (meson split_list_last)
  then show ?thesis
    using s pre by blast
qed

lemma json_text_no_span:
  assumes "\<not> (\<exists>i j. i < j \<and> j < length s \<and> s ! i = CHR ''{'' \<and> s ! j = CHR ''}'')"
  shows "json_text s = s"
proof (cases "CHR ''{'' \<in> set s \<and> CHR ''}'' \<in> set s")
  case False
  then show ?thesis
    by (auto simp: json_text_def Let_def py_find_notin py_rfind_notin)
next
  case True
  then obtain pre rest where s: "s = pre @ CHR ''{'' # rest" and pre: "CHR ''{'' \<notin> set pre"
    by (meson split_list_first)
  from True obtain front post where s': "s = front @ CHR ''}'' # post"
    and post: "CHR ''}'' \<notin> set post"
    by (meson split_list_last)
  have first: "py_find (CHR ''{'') s = int (length pre)"
    using s pre py_find_first by simp
  have last: "py_rfind (CHR ''}'') s = int (length front)"
    using s' post py_rfind_last by simp
  have "\<not> length pre < length front"
  proof
    assume less: "length pre < length front"
    have "s ! length pre = CHR ''{''"
      using s by simp
    moreover have "s ! length front = CHR ''}''" and "length front < length s"
      using s' by simp_all
    ultimately show False
      using assms less by blast
  qed
  then show ?thesis
    by (simp add: json_text_def Let_def first last)
qed

lemma json_text_prose:
  \<open>json_text ''Sure, here you go: {"answer": 42, "submit_url": null, "payload": null}\<newline>Thanks''
     = ''{"answer": 42, "submit_url": null, "payload": null}''\<close>
  by (simp add: json_text_def py_rfind_def py_slice_def Let_def)

text \<open>
  C5. A reply with a \<^verbatim>\<open>{\<close> and a \<^verbatim>\<open>}\<close> after it is some prose without \<^verbatim>\<open>{\<close>, a span
  from the first \<^verbatim>\<open>{\<close> to the last \<^verbatim>\<open>}\<close>, and some prose without \<^verbatim>\<open>}\<close>; the decoder is
  given exactly the span. A reply with no such pair of braces is decoded as it is. For
  the reply \<^verbatim>\<open>Sure, here you go: {"answer": 42, "submit_url": null, "payload": null}\<close>
  followed by a line \<^verbatim>\<open>Thanks\<close>, the parse is what the decoder makes of the object's text.
\<close>

theorem parse_reply_span:
  \<open>(CHR ''{'' \<notin> set pre \<and> CHR ''}'' \<notin> set post \<longrightarrow>
      parse_reply loads (pre @ CHR ''{'' # mid @ CHR ''}'' # post)
        = loads (CHR ''{'' # mid @ [CHR ''}'']))
   \<and> ((\<exists>i j. i < j \<and> j < length s \<and> s ! i = CHR ''{'' \<and> s ! j = CHR ''}'') \<longrightarrow>
        (\<exists>pre mid post. s = pre @ CHR ''{'' # mid @ CHR ''}'' # post \<and>
           CHR ''{'' \<notin> set pre \<and> CHR ''}'' \<notin> set post))
   \<and> (\<not> (\<exists>i j. i < j \<and> j < length s \<and> s ! i = CHR ''{'' \<and> s ! j = CHR ''}'') \<longrightarrow>
        parse_reply loads s = loads s)
   \<and> (loads ''{"answer": 42, "submit_url": null, "payload": null}'' = Inr obj \<longrightarrow>
        parse_reply loads
          ''Sure, here you go: {"answer": 42, "submit_url": null, "payload": null}\<newline>Thanks''
        = Inr obj)\<close>
proof (intro conjI impI)
  assume "CHR ''{'' \<notin> set pre \<and> CHR ''}'' \<notin> set post"
  then show "parse_reply loads (pre @ CHR ''{'' # mid @ CHR ''}'' # post)
      = loads (CHR ''{'' # mid @ [CHR ''}''])"
    by (simp add: parse_reply_def json_text_span)
next
  assume "\<exists>i j. i < j \<and> j < length s \<and> s ! i = CHR ''{'' \<and> s ! j = CHR ''}''"
  then show "\<exists>pre mid post. s = pre @ CHR ''{'' # mid @ CHR ''}'' # post \<and>
      CHR ''{'' \<notin> set pre \<and> CHR ''}'' \<notin> set post"
    using span_exists by blast
next
  assume "\<not> (\<exists>i j. i < j \<and> j < length s \<and> s ! i = CHR ''{'' \<and> s ! j = CHR ''}'')"
  then show "parse_reply loads s = loads s"
    by (simp add: parse_reply_def json_text_no_span)
next
  assume \<open>loads ''{"answer": 42, "submit_url": null, "payload": null}'' = Inr obj\<close>
  then show \<open>parse_reply loads
      ''Sure, here you go: {"answer": 42, "submit_url": null, "payload": null}\<newline>Thanks''
      = Inr obj\<close>
    by (simp add: parse_reply_def json_text_prose)
qed

theorem parse_reply_span_witness:
  \<open>parse_reply demo_loads
      ''Sure, here you go: {"answer": 42, "submit_url": null, "payload": null}\<newline>Thanks''
    = Inr (JObj [(''answer'', JInt 42), (''submit_url'', JNull), (''payload'', JNull)])
   \<and> parse_reply demo_loads (''ok '' @ CHR ''{'' # ''"a": {}'' @ CHR ''}'' # '' bye'')
       = demo_loads ''{"a": {}}''
   \<and> (\<exists>pre mid post. ''x{y}z}'' = pre @ CHR ''{'' # mid @ CHR ''}'' # post \<and>
         CHR ''{'' \<notin> set pre \<and> CHR ''}'' \<notin> set post)
   \<and> parse_reply demo_loads ''}42{'' = demo_loads ''}42{''\<close>
proof -
  have decoded: \<open>demo_loads ''{"answer": 42, "submit_url": null, "payload": null}''
      = Inr (JObj [(''answer'', JInt 42), (''submit_url'', JNull), (''payload'', JNull)])\<close>
    by (simp add: demo_loads_def)
  have prose: "CHR ''{'' \<notin> set ''ok '' \<and> CHR ''}'' \<notin> set '' bye''"
    by simp
  have braces: "\<exists>i j. i < j \<and> j < length ''x{y}z}'' \<and> ''x{y}z}'' ! i = CHR ''{''
      \<and> ''x{y}z}'' ! j = CHR ''}''"
    by (rule exI [of _ 1], rule exI [of _ 3]) simp
  have none: "\<not> (\<exists>i j. i < j \<and> j < length ''}42{'' \<and> ''}42{'' ! i = CHR ''{''
      \<and> ''}42{'' ! j = CHR ''}'')"
  proof
    assume "\<exists>i j. i < j \<and> j < length ''}42{'' \<and> ''}42{'' ! i = CHR ''{''
      \<and> ''}42{'' ! j = CHR ''}''"
    then obtain i j where ij: "i < j" "j < 4" "''}42{'' ! i = CHR ''{''"
      by auto
    from ij(1,2) have "i = 0 \<or> i = 1 \<or> i = 2"
      by arith
    with ij(3) show False
      by auto
  qed
  show ?thesis
    using parse_reply_span [of "''ok ''" "'' bye''" demo_loads "''\"a\": {}''" "''x{y}z}''"]
      parse_reply_span [of "[]" "[]" demo_loads "[]" "''}42{''"] decoded prose braces none
    by simp
qed

section \<open>Failures of the reasoning call\<close>

text \<open>
  C4. \<^verbatim>\<open>call_gemini_for_solution\<close> returns a value on every path; its type has no place
  for an exception. Whenever the attempt (the backend call, the extraction of its text,
  the parse) raises \<open>e\<close>, the value is a fresh dict with \<^verbatim>\<open>answer\<close>, \<^verbatim>\<open>submit_url\<close> and
  \<^verbatim>\<open>payload\<close> \<^verbatim>\<open>None\<close>, \<^verbatim>\<open>reason\<close> \<^verbatim>\<open>"model_error"\<close> and \<^verbatim>\<open>model_exception\<close> the text of
  \<open>e\<close>. The attempt raises when the backend call raises, when the extraction raises, and
  when what the extraction found is not a string.
\<close>

theorem reasoning_failure_sentinel:
  "(reasoning_attempt E (user_input E page_html page_text collected_files) = Inl e \<longrightarrow>
      call_gemini_for_solution E page_html page_text collected_files h =
        ((PRef (length h),
          h @ [[(''answer'', PNone), (''submit_url'', PNone), (''payload'', PNone),
                (''reason'', PStr ''model_error''),
                (''model_exception'', PStr (exn_message e))]]),
         [GenerateContent (user_input E page_html page_text collected_files)]))
   \<and> (env_generate_content E rq = Inl e \<longrightarrow> reasoning_attempt E rq = Inl e)
   \<and> (env_generate_content E rq = Inr resp \<and>
        extract_text_from_gemini_response (env_str E) resp = Inl e \<longrightarrow>
        reasoning_attempt E rq = Inl e)
   \<and> (env_generate_content E rq = Inr resp \<and>
        extract_text_from_gemini_response (env_str E) resp = Inr v \<and> (\<forall>t. v \<noteq> RStr t) \<longrightarrow>
        reasoning_attempt E rq = Inl (find_failure v))"
proof (intro conjI impI)
  assume "reasoning_attempt E (user_input E page_html page_text collected_files) = Inl e"
  then show "call_gemini_for_solution E page_html page_text collected_files h =
      ((PRef (length h),
        h @ [[(''answer'', PNone), (''submit_url'', PNone), (''payload'', PNone),
              (''reason'', PStr ''model_error''),
              (''model_exception'', PStr (exn_message e))]]),
       [GenerateContent (user_input E page_html page_text collected_files)])"
    by (simp add: call_gemini_for_solution_def Let_def new_dict_def model_error_sentinel_def)
next
  assume "env_generate_content E rq = Inl e"
  then show "reasoning_attempt E rq = Inl e"
    by (simp add: reasoning_attempt_def)
next
  assume "env_generate_content E rq = Inr resp \<and>
    extract_text_from_gemini_response (env_str E) resp = Inl e"
  then show "reasoning_attempt E rq = Inl e"
    by (simp add: reasoning_attempt_def)
next
  assume "env_generate_content E rq = Inr resp \<and>
    extract_text_from_gemini_response (env_str E) resp = Inr v \<and> (\<forall>t. v \<noteq> RStr t)"
  then show "reasoning_attempt E rq = Inl (find_failure v)"
    by (cases v) (simp_all add: reasoning_attempt_def)
qed

theorem reasoning_failure_sentinel_witness:
  "call_gemini_for_solution failing_backend ''<html></html>'' ''hello'' [] [] =
     ((PRef 0,
       [[(''answer'', PNone), (''submit_url'', PNone), (''payload'', PNone),
         (''reason'', PStr ''model_error''),
         (''model_exception'', PStr ''503 Service Unavailable'')]]),
      [GenerateContent \<lparr>rq_html = ''<html></html>'', rq_text = ''hello'', rq_files = []\<rparr>])
   \<and> reasoning_attempt raising_text_backend \<lparr>rq_html = [], rq_text = [], rq_files = []\<rparr>
       = Inl (ValueError ''The response has no candidates'')
   \<and> reasoning_attempt odd_shape_backend \<lparr>rq_html = [], rq_text = [], rq_files = []\<rparr>
       = Inl (AttributeError (CHR 0x27 # ''NoneType'' @ CHR 0x27 # '' object has no attribute ''
                @ CHR 0x27 # ''find'' @ [CHR 0x27]))"
proof -
  let ?rq = "\<lparr>rq_html = [], rq_text = [], rq_files = []\<rparr>"
  have rq: "user_input failing_backend ''<html></html>'' ''hello'' []
      = \<lparr>rq_html = ''<html></html>'', rq_text = ''hello'', rq_files = []\<rparr>"
    by (simp add: user_input_def files_info_def)
  have down: "env_generate_content failing_backend
      \<lparr>rq_html = ''<html></html>'', rq_text = ''hello'', rq_files = []\<rparr>
      = Inl (OtherError ''503 Service Unavailable'')"
    by (simp add: failing_backend_def demo_env_def)
  have raised: "env_generate_content raising_text_backend ?rq
      = Inr (RObj ''GenerateContentResponse''
               [(''text'', Inl (ValueError ''The response has no candidates''))])
    \<and> extract_text_from_gemini_response (env_str raising_text_backend)
        (RObj ''GenerateContentResponse''
               [(''text'', Inl (ValueError ''The response has no candidates''))])
      = Inl (ValueError ''The response has no candidates'')"
    by (simp add: raising_text_backend_def demo_env_def extract_text_from_gemini_response_def)
  have shape: "env_generate_content odd_shape_backend ?rq
      = Inr (RObj ''GenerateContentResponse''
               [(''output'', Inr (RList [RDict [(''text'', RNone)]]))])
    \<and> extract_text_from_gemini_response (env_str odd_shape_backend)
        (RObj ''GenerateContentResponse''
               [(''output'', Inr (RList [RDict [(''text'', RNone)]]))])
      = Inr RNone \<and> (\<forall>t. RNone \<noteq> RStr t)"
    by (simp add: odd_shape_backend_def demo_env_def extract_text_from_gemini_response_def
        from_output_def content_first_text_def)
  have attempt: "reasoning_attempt failing_backend
      \<lparr>rq_html = ''<html></html>'', rq_text = ''hello'', rq_files = []\<rparr>
      = Inl (OtherError ''503 Service Unavailable'')"
    using reasoning_failure_sentinel [of failing_backend _ _ _ "OtherError ''503 Service Unavailable''" _
        "\<lparr>rq_html = ''<html></html>'', rq_text = ''hello'', rq_files = []\<rparr>"] down
    by simp
  show ?thesis
    using reasoning_failure_sentinel [of failing_backend "''<html></html>''" "''hello''" "[]"
        "OtherError ''503 Service Unavailable''" "[]"]
      reasoning_failure_sentinel [of raising_text_backend _ _ _
        "ValueError ''The response has no candidates''" _ ?rq
        "RObj ''GenerateContentResponse''
               [(''text'', Inl (ValueError ''The response has no candidates''))]"]
      reasoning_failure_sentinel [of odd_shape_backend _ _ _ _ _ ?rq
        "RObj ''GenerateContentResponse''
               [(''output'', Inr (RList [RDict [(''text'', RNone)]]))]" RNone]
      rq attempt raised shape
    by (simp add: find_failure_def quoted_def)
qed

section \<open>A reply that does not decode\<close>

lemma alloc_not_object: "\<forall>fs. j \<noteq> JObj fs \<Longrightarrow> \<not> is_dict (fst (alloc j h))"
  by (cases j) (auto split: prod.splits)

lemma submit_not_dict: "\<not> is_dict solution \<Longrightarrow>
    submit E solution email secret h =
      \<lparr>rs_outcome = ModelFailed, rs_status = 500, rs_heap = h, rs_events = []\<rparr>"
  by (cases solution) (simp_all add: submit_def)

lemma submit_sentinel:
  "submit E (PRef (length h)) email secret (h @ [model_error_sentinel e]) =
     \<lparr>rs_outcome = NoPayloadFromModel (PRef (length h)), rs_status = 500,
      rs_heap = h @ [model_error_sentinel e], rs_events = []\<rparr>"
  by (simp add: submit_def payload_for_def heap_get_def dict_get_def model_error_sentinel_def)

lemma attempt_failure_solve:
  assumes "render_page_and_collect E u 30000 = (Inr page_data, evs)"
    and "rq = user_input E (rr_html page_data) (rr_text page_data) (rr_collected_files page_data)"
    and "reasoning_attempt E rq = Inl e"
  shows "solve E goto_rejects (PStr u) email secret h =
        \<lparr>rs_outcome = NoPayloadFromModel (PRef (length h)), rs_status = 500,
         rs_heap = h @ [model_error_sentinel e],
         rs_events = evs @ [GenerateContent rq]\<rparr>"
proof -
  have "call_gemini_for_solution E (rr_html page_data) (rr_text page_data)
      (rr_collected_files page_data) h
      = ((PRef (length h), h @ [model_error_sentinel e]), [GenerateContent rq])"
    using assms(3) unfolding assms(2)
    by (simp add: call_gemini_for_solution_def Let_def new_dict_def)
  then show ?thesis
    using assms(1) by (simp add: solve_def submit_sentinel)
qed

lemma decode_failure_solve:
  assumes "render_page_and_collect E u 30000 = (Inr page_data, evs)"
    and "rq = user_input E (rr_html page_data) (rr_text page_data) (rr_collected_files page_data)"
    and "env_generate_content E rq = Inr resp"
    and "extract_text_from_gemini_response (env_str E) resp = Inr (RStr text_out)"
    and "env_json_decode E (json_text text_out) = Inl e"
  shows "solve E goto_rejects (PStr u) email secret h =
        \<lparr>rs_outcome = NoPayloadFromModel (PRef (length h)), rs_status = 500,
         rs_heap = h @ [model_error_sentinel e],
         rs_events = evs @ [GenerateContent rq]\<rparr>"
proof -
  have "reasoning_attempt E rq = Inl e"
    using assms(3-5) by (simp add: reasoning_attempt_def parse_reply_def)
  then show ?thesis
    using assms(1,2) by (rule attempt_failure_solve [rotated 2])
qed

lemma backend_failure_solve:
  assumes "render_page_and_collect E u 30000 = (Inr page_data, evs)"
    and "rq = user_input E (rr_html page_data) (rr_text page_data) (rr_collected_files page_data)"
    and "env_generate_content E rq = Inl e"
  shows "solve E goto_rejects (PStr u) email secret h =
        \<lparr>rs_outcome = NoPayloadFromModel (PRef (length h)), rs_status = 500,
         rs_heap = h @ [model_error_sentinel e],
         rs_events = evs @ [GenerateContent rq]\<rparr>"
proof -
  have "reasoning_attempt E rq = Inl e"
    using assms(3) by (simp add: reasoning_attempt_def)
  then show ?thesis
    using assms(1,2) by (rule attempt_failure_solve [rotated 2])
qed

lemma decoded_non_object_solve:
  assumes "render_page_and_collect E u 30000 = (Inr page_data, evs)"
    and "rq = user_input E (rr_html page_data) (rr_text page_data) (rr_collected_files page_data)"
    and "env_generate_content E rq = Inr resp"
    and "extract_text_from_gemini_response (env_str E) resp = Inr (RStr text_out)"
    and "env_json_decode E (json_text text_out) = Inr j"
    and "\<forall>fs. j \<noteq> JObj fs"
  shows "solve E goto_rejects (PStr u) email secret h =
        \<lparr>rs_outcome = ModelFailed, rs_status = 500, rs_heap = snd (alloc j h),
         rs_events = evs @ [GenerateContent rq]\<rparr>"
proof -
  have attempt: "reasoning_attempt E rq = Inr j"
    using assms(3-5) by (simp add: reasoning_attempt_def parse_reply_def)
  obtain v h' where al: "alloc j h = (v, h')"
    by (cases "alloc j h")
  then have "\<not> is_dict v"
    using assms(6) alloc_not_object [of j h] by simp
  moreover have "call_gemini_for_solution E (rr_html page_data) (rr_text page_data)
      (rr_collected_files page_data) h = ((v, h'), [GenerateContent rq])"
    using attempt al unfolding assms(2) by (simp add: call_gemini_for_solution_def Let_def)
  ultimately show ?thesis
    using assms(1) al by (simp add: solve_def submit_not_dict)
qed

text \<open>
  C2, as the code has it. \<^verbatim>\<open>json.loads\<close> stands inside the \<^verbatim>\<open>try\<close> of
  \<^verbatim>\<open>call_gemini_for_solution\<close>: when the span located in the reply does not decode, the
  function returns the \<^verbatim>\<open>model_error\<close> dict, and the handler, finding no payload in it,
  answers \<^verbatim>\<open>no_payload_from_model\<close> with status 500, echoing that dict; it makes no
  further call and does not crash. A failure of the backend call is answered the same
  way, the two differing in the text of \<^verbatim>\<open>model_exception\<close> only. \<^verbatim>\<open>model_failed\<close> is
  the answer when the span decodes to a JSON value that is not an object.
\<close>

theorem decode_failure_outcome:
  "(render_page_and_collect E u 30000 = (Inr page_data, evs) \<and>
    env_generate_content E (user_input E (rr_html page_data) (rr_text page_data)
      (rr_collected_files page_data)) = Inr resp \<and>
    extract_text_from_gemini_response (env_str E) resp = Inr (RStr text_out) \<and>
    env_json_decode E (json_text text_out) = Inl e \<longrightarrow>
      solve E goto_rejects (PStr u) email secret h =
        \<lparr>rs_outcome = NoPayloadFromModel (PRef (length h)), rs_status = 500,
         rs_heap = h @ [[(''answer'', PNone), (''submit_url'', PNone), (''payload'', PNone),
                         (''reason'', PStr ''model_error''),
                         (''model_exception'', PStr (exn_message e))]],
         rs_events = evs @ [GenerateContent (user_input E (rr_html page_data)
           (rr_text page_data) (rr_collected_files page_data))]\<rparr>)
   \<and> (render_page_and_collect E u 30000 = (Inr page_data, evs) \<and>
    env_generate_content E (user_input E (rr_html page_data) (rr_text page_data)
      (rr_collected_files page_data)) = Inr resp \<and>
    extract_text_from_gemini_response (env_str E) resp = Inr (RStr text_out) \<and>
    env_json_decode E (json_text text_out) = Inr j \<and> (\<forall>fs. j \<noteq> JObj fs) \<longrightarrow>
      solve E goto_rejects (PStr u) email secret h =
        \<lparr>rs_outcome = ModelFailed, rs_status = 500, rs_heap = snd (alloc j h),
         rs_events = evs @ [GenerateContent (user_input E (rr_html page_data)
           (rr_text page_data) (rr_collected_files page_data))]\<rparr>)
   \<and> (render_page_and_collect E u 30000 = (Inr page_data, evs) \<and>
    env_generate_content E (user_input E (rr_html page_data) (rr_text page_data)
      (rr_collected_files page_data)) = Inl e \<longrightarrow>
      solve E goto_rejects (PStr u) email secret h =
        \<lparr>rs_outcome = NoPayloadFromModel (PRef (length h)), rs_status = 500,
         rs_heap = h @ [[(''answer'', PNone), (''submit_url'', PNone), (''payload'', PNone),
                         (''reason'', PStr ''model_error''),
                         (''model_exception'', PStr (exn_message e))]],
         rs_events = evs @ [GenerateContent (user_input E (rr_html page_data)
           (rr_text page_data) (rr_collected_files page_data))]\<rparr>)"
  using decode_failure_solve [OF _ refl, of E u page_data evs resp text_out e goto_rejects
      email secret h]
    decoded_non_object_solve [OF _ refl, of E u page_data evs resp text_out j goto_rejects
      email secret h]
    backend_failure_solve [OF _ refl, of E u page_data evs e goto_rejects email secret h]
  by (simp add: model_error_sentinel_def)

theorem decode_failure_outcome_witness:
  "solve demo_env demo_rejects (PStr ''https://x/quiz'') (PStr ''a@b.com'') (PStr ''s'') [] =
     \<lparr>rs_outcome = NoPayloadFromModel (PRef 0), rs_status = 500,
      rs_heap = [[(''answer'', PNone), (''submit_url'', PNone), (''payload'', PNone),
                  (''reason'', PStr ''model_error''),
                  (''model_exception'', PStr ''Expecting value: line 1 column 1 (char 0)'')]],
      rs_events = demo_render_events @ [GenerateContent demo_user_input]\<rparr>
   \<and> solve list_backend demo_rejects (PStr ''https://x/quiz'') (PStr ''a@b.com'') (PStr ''s'') [] =
     \<lparr>rs_outcome = ModelFailed, rs_status = 500, rs_heap = [],
      rs_events = demo_render_events @ [GenerateContent demo_user_input]\<rparr>
   \<and> solve failing_backend demo_rejects (PStr ''https://x/quiz'') (PStr ''a@b.com'') (PStr ''s'')
       [] =
     \<lparr>rs_outcome = NoPayloadFromModel (PRef 0), rs_status = 500,
      rs_heap = [[(''answer'', PNone), (''submit_url'', PNone), (''payload'', PNone),
                  (''reason'', PStr ''model_error''),
                  (''model_exception'', PStr ''503 Service Unavailable'')]],
      rs_events = demo_render_events @ [GenerateContent demo_user_input]\<rparr>"
proof -
  have render'': "render_page_and_collect failing_backend ''https://x/quiz'' 30000
      = (Inr demo_page_data, demo_render_events)"
    by (simp add: failing_backend_def run_defs demo_defs demo_page_data_def
        demo_render_events_def)
  have down: "user_input failing_backend (rr_html demo_page_data) (rr_text demo_page_data)
      (rr_collected_files demo_page_data) = demo_user_input"
    "env_generate_content failing_backend demo_user_input
      = Inl (OtherError ''503 Service Unavailable'')"
    by (simp_all add: failing_backend_def demo_env_def user_input_def files_info_def
        demo_page_data_def demo_user_input_def)
  have render: "render_page_and_collect demo_env ''https://x/quiz'' 30000
      = (Inr demo_page_data, demo_render_events)"
    by (simp add: run_defs demo_defs demo_page_data_def demo_render_events_def)
  have render': "render_page_and_collect list_backend ''https://x/quiz'' 30000
      = (Inr demo_page_data, demo_render_events)"
    by (simp add: list_backend_def run_defs demo_defs demo_page_data_def demo_render_events_def)
  have rq: "user_input demo_env (rr_html demo_page_data) (rr_text demo_page_data)
      (rr_collected_files demo_page_data) = demo_user_input"
    "user_input list_backend (rr_html demo_page_data) (rr_text demo_page_data)
      (rr_collected_files demo_page_data) = demo_user_input"
    by (simp_all add: user_input_def files_info_def demo_page_data_def demo_user_input_def)
  have prose: "env_generate_content demo_env demo_user_input
      = Inr (RObj ''GenerateContentResponse''
               [(''text'', Inr (RStr ''I could not find the answer.''))])"
    "extract_text_from_gemini_response (env_str demo_env)
       (RObj ''GenerateContentResponse''
               [(''text'', Inr (RStr ''I could not find the answer.''))])
      = Inr (RStr ''I could not find the answer.'')"
    "env_json_decode demo_env (json_text ''I could not find the answer.'')
      = Inl (JSONDecodeError ''Expecting value: line 1 column 1 (char 0)'')"
    by (simp_all add: run_defs demo_defs)
  have listed: "env_generate_content list_backend demo_user_input
      = Inr (RObj ''GenerateContentResponse'' [(''text'', Inr (RStr ''[1, 2]''))])"
    "extract_text_from_gemini_response (env_str list_backend)
       (RObj ''GenerateContentResponse'' [(''text'', Inr (RStr ''[1, 2]''))])
      = Inr (RStr ''[1, 2]'')"
    "env_json_decode list_backend (json_text ''[1, 2]'') = Inr (JArr [JInt 1, JInt 2])"
    "\<forall>fs. JArr [JInt 1, JInt 2] \<noteq> JObj fs"
    by (simp_all add: list_backend_def run_defs demo_defs)
  show ?thesis
    using decode_failure_outcome [of demo_env "''https://x/quiz''" demo_page_data
        demo_render_events
        "RObj ''GenerateContentResponse'' [(''text'', Inr (RStr ''I could not find the answer.''))]"
        "''I could not find the answer.''"
        "JSONDecodeError ''Expecting value: line 1 column 1 (char 0)''"
        demo_rejects "PStr ''a@b.com''" "PStr ''s''" "[]"]
      decode_failure_outcome [of list_backend "''https://x/quiz''" demo_page_data
        demo_render_events
        "RObj ''GenerateContentResponse'' [(''text'', Inr (RStr ''[1, 2]''))]"
        "''[1, 2]''" _ demo_rejects "PStr ''a@b.com''" "PStr ''s''" "[]" "JArr [JInt 1, JInt 2]"]
      decode_failure_outcome [of failing_backend "''https://x/quiz''" demo_page_data
        demo_render_events _ _ "OtherError ''503 Service Unavailable''"
        demo_rejects "PStr ''a@b.com''" "PStr ''s''" "[]"]
      render render' render'' rq prose listed down
    by simp
qed

text \<open>
  The sample backend answers in prose. The handler's answer is
  \<^verbatim>\<open>no_payload_from_model\<close>, not \<^verbatim>\<open>model_failed\<close>.
\<close>

theorem decode_failure_counterexample:
  "extract_text_from_gemini_response (env_str demo_env)
      (RObj ''GenerateContentResponse'' [(''text'', Inr (RStr ''I could not find the answer.''))])
     = Inr (RStr ''I could not find the answer.'')
   \<and> env_json_decode demo_env (json_text ''I could not find the answer.'')
     = Inl (JSONDecodeError ''Expecting value: line 1 column 1 (char 0)'')
   \<and> rs_outcome (quiz_endpoint demo_env demo_rejects (Inr demo_request))
     = NoPayloadFromModel (PRef 1)
   \<and> rs_outcome (quiz_endpoint demo_env demo_rejects (Inr demo_request)) \<noteq> ModelFailed
   \<and> heap_get (rs_heap (quiz_endpoint demo_env demo_rejects (Inr demo_request))) 1
     = [(''answer'', PNone), (''submit_url'', PNone), (''payload'', PNone),
        (''reason'', PStr ''model_error''),
        (''model_exception'', PStr ''Expecting value: line 1 column 1 (char 0)'')]"
  by (simp add: run_defs demo_defs)

section \<open>The size cap of a download\<close>

lemma raise_for_status_error:
  assumes "400 \<le> resp_status_code resp" and "resp_status_code resp < 600"
  shows "raise_for_status resp = Some (HTTPError (resp_error_message resp))"
  using assms by (simp add: raise_for_status_def)

lemma raise_for_status_other:
  assumes "resp_status_code resp < 400 \<or> 600 \<le> resp_status_code resp"
  shows "raise_for_status resp = None"
  using assms by (auto simp: raise_for_status_def)

lemma download_file_http_error:
  assumes "env_get E url = Inr resp"
    and "400 \<le> resp_status_code resp" and "resp_status_code resp < 600"
  shows "download_file E url max_bytes
    = (Inl (HTTPError (resp_error_message resp)), [HttpGet url])"
  using assms(1) raise_for_status_error [OF assms(2,3)] by (simp add: download_file_def)

lemma download_file_announced:
  assumes "env_get E url = Inr resp"
    and "resp_status_code resp < 400 \<or> 600 \<le> resp_status_code resp"
    and "content_length E resp = Inr n" and "0 \<le> max_bytes" and "max_bytes < n"
  shows "download_file E url max_bytes = (Inl (ValueError ''Remote file too large''), [HttpGet url])"
  using assms(1,3-5) raise_for_status_other [OF assms(2)] by (simp add: download_file_def)

lemma download_file_unread:
  assumes "env_get E url = Inr resp"
    and "content_length E resp = Inr n" and "0 \<le> max_bytes" and "max_bytes < n"
  shows "(\<exists>e. fst (download_file E url max_bytes) = Inl e)
    \<and> ReadBody url \<notin> set (snd (download_file E url max_bytes))"
  using assms by (cases "raise_for_status resp") (simp_all add: download_file_def)

lemma download_file_actual:
  assumes "env_get E url = Inr resp"
    and "resp_status_code resp < 400 \<or> 600 \<le> resp_status_code resp"
    and "content_length E resp = Inr n" and "n \<le> max_bytes"
    and "resp_content resp = Inr data" and "max_bytes < int (length data)"
  shows "download_file E url max_bytes
    = (Inl (ValueError ''Downloaded file exceeds limit''), [HttpGet url, ReadBody url])"
  using assms(1,3-6) raise_for_status_other [OF assms(2)] by (simp add: download_file_def)

lemma download_file_returns:
  assumes "env_get E url = Inr resp"
    and "resp_status_code resp < 400 \<or> 600 \<le> resp_status_code resp"
    and "content_length E resp = Inr n" and "n \<le> max_bytes"
    and "resp_content resp = Inr data" and "int (length data) \<le> max_bytes"
  shows "download_file E url max_bytes
    = (Inr (data, case resp_content_type resp of None \<Rightarrow> [] | Some t \<Rightarrow> t),
       [HttpGet url, ReadBody url])"
  using assms(1,3-6) raise_for_status_other [OF assms(2)] by (simp add: download_file_def)

lemma download_file_bounded:
  assumes "fst (download_file E url max_bytes) = Inr (data, content_type)"
  shows "int (length data) \<le> max_bytes"
  using assms
  by (auto simp: download_file_def split: sum.splits option.splits if_splits)

text \<open>
  C3, as the code has it. For a response that \<^verbatim>\<open>requests.get\<close> returned: a status
  from 400 to 599 fails with the \<^verbatim>\<open>HTTPError\<close> of \<^verbatim>\<open>raise_for_status()\<close>, before
  the header is looked at. Every other status, the 1xx and 3xx ones too, goes on as a
  success: when the \<^verbatim>\<open>content-length\<close> header reads as a number above \<open>max_bytes\<close>,
  the download fails with the \<^verbatim>\<open>ValueError\<close> \<^verbatim>\<open>Remote file too large\<close>; when the header
  is absent (read as \<open>0\<close>) or within the cap and the body is longer than \<open>max_bytes\<close>,
  it fails with the \<^verbatim>\<open>ValueError\<close> \<^verbatim>\<open>Downloaded file exceeds limit\<close>; and when the
  body is within the cap too, its bytes are returned. With a header above the cap the
  download fails without reading the body, whatever the status. The bytes of a
  successful download are at most \<open>max_bytes\<close>. The two \<^verbatim>\<open>ValueError\<close>s are the
  spec's TooLarge.
\<close>

theorem download_file_cap:
  "(env_get E url = Inr resp \<and>
      400 \<le> resp_status_code resp \<and> resp_status_code resp < 600 \<longrightarrow>
      download_file E url max_bytes
        = (Inl (HTTPError (resp_error_message resp)), [HttpGet url]))
   \<and> (env_get E url = Inr resp \<and>
        (resp_status_code resp < 400 \<or> 600 \<le> resp_status_code resp) \<and>
        content_length E resp = Inr n \<and> 0 \<le> max_bytes \<and> max_bytes < n \<longrightarrow>
      download_file E url max_bytes
        = (Inl (ValueError ''Remote file too large''), [HttpGet url]))
   \<and> (env_get E url = Inr resp \<and>
        content_length E resp = Inr n \<and> 0 \<le> max_bytes \<and> max_bytes < n \<longrightarrow>
      (\<exists>e. fst (download_file E url max_bytes) = Inl e)
      \<and> ReadBody url \<notin> set (snd (download_file E url max_bytes)))
   \<and> (env_get E url = Inr resp \<and>
        (resp_status_code resp < 400 \<or> 600 \<le> resp_status_code resp) \<and>
        content_length E resp = Inr n \<and> n \<le> max_bytes \<and>
        resp_content resp = Inr data \<and> max_bytes < int (length data) \<longrightarrow>
      download_file E url max_bytes
        = (Inl (ValueError ''Downloaded file exceeds limit''), [HttpGet url, ReadBody url]))
   \<and> (env_get E url = Inr resp \<and>
        (resp_status_code resp < 400 \<or> 600 \<le> resp_status_code resp) \<and>
        content_length E resp = Inr n \<and> n \<le> max_bytes \<and>
        resp_content resp = Inr data \<and> int (length data) \<le> max_bytes \<longrightarrow>
      download_file E url max_bytes
        = (Inr (data, case resp_content_type resp of None \<Rightarrow> [] | Some t \<Rightarrow> t),
           [HttpGet url, ReadBody url]))
   \<and> (resp_content_length resp = None \<longrightarrow> content_length E resp = Inr 0)
   \<and> (resp_content_length resp = Some s \<and> s \<noteq> [] \<longrightarrow> content_length E resp = env_int E s)
   \<and> (fst (download_file E url max_bytes) = Inr (body, content_type) \<longrightarrow>
        int (length body) \<le> max_bytes)"
  using download_file_http_error [of E url resp max_bytes]
    download_file_announced [of E url resp n max_bytes]
    download_file_unread [of E url resp n max_bytes]
    download_file_actual [of E url resp n max_bytes data]
    download_file_returns [of E url resp n max_bytes data]
    download_file_bounded [of E url max_bytes body content_type]
  by (simp add: content_length_def)

theorem download_file_cap_witness:
  "download_file demo_env ''https://x/gone.pdf'' 5000000
     = (Inl (HTTPError ''404 Client Error: Not Found''), [HttpGet ''https://x/gone.pdf''])
   \<and> download_file demo_env ''https://x/big.zip'' 5000000
     = (Inl (ValueError ''Remote file too large''), [HttpGet ''https://x/big.zip''])
   \<and> ReadBody ''https://x/gone.pdf'' \<notin> set (snd (download_file demo_env ''https://x/gone.pdf'' 5000000))
   \<and> download_file demo_env ''https://x/data.csv'' 2
     = (Inl (ValueError ''Downloaded file exceeds limit''),
        [HttpGet ''https://x/data.csv'', ReadBody ''https://x/data.csv''])
   \<and> download_file demo_env ''https://x/choices.json'' 5000000
     = (Inr (''pick one'', ''text/html''),
        [HttpGet ''https://x/choices.json'', ReadBody ''https://x/choices.json''])
   \<and> fst (download_file demo_env ''https://x/more.json'' 5000000) = Inr (''{}'', ''application/json'')
   \<and> int (length ''{}'') \<le> 5000000"
proof -
  let ?gone = "\<lparr>resp_status_code = 404,
             resp_error_message = ''404 Client Error: Not Found'',
             resp_content_length = Some ''9000000'',
             resp_content_type = None, resp_content = Inr []\<rparr>"
  let ?big = "\<lparr>resp_status_code = 200, resp_error_message = [],
             resp_content_length = Some ''6000000'',
             resp_content_type = Some ''application/zip'', resp_content = Inr ''PK''\<rparr>"
  let ?csv = "\<lparr>resp_status_code = 200, resp_error_message = [],
             resp_content_length = None,
             resp_content_type = Some ''text/csv'', resp_content = Inr ''a,b''\<rparr>"
  let ?choices = "\<lparr>resp_status_code = 300, resp_error_message = [],
             resp_content_length = None,
             resp_content_type = Some ''text/html'', resp_content = Inr ''pick one''\<rparr>"
  have gone: "env_get demo_env ''https://x/gone.pdf'' = Inr ?gone"
    "content_length demo_env ?gone = Inr 9000000"
    by (simp_all add: demo_env_def demo_get_def content_length_def)
  have big: "env_get demo_env ''https://x/big.zip'' = Inr ?big"
    "content_length demo_env ?big = Inr 6000000"
    by (simp_all add: demo_env_def demo_get_def content_length_def)
  have csv: "env_get demo_env ''https://x/data.csv'' = Inr ?csv"
    "content_length demo_env ?csv = Inr 0"
    by (simp_all add: demo_env_def demo_get_def content_length_def)
  have choices: "env_get demo_env ''https://x/choices.json'' = Inr ?choices"
    "content_length demo_env ?choices = Inr 0"
    by (simp_all add: demo_env_def demo_get_def content_length_def)
  have json: "fst (download_file demo_env ''https://x/more.json'' 5000000)
      = Inr (''{}'', ''application/json'')"
    by (simp add: download_file_def raise_for_status_def demo_env_def demo_get_def
        content_length_def)
  show ?thesis
    using download_file_cap [of demo_env "''https://x/gone.pdf''" ?gone 5000000 9000000]
      download_file_cap [of demo_env "''https://x/big.zip''" ?big 5000000 6000000]
      download_file_cap [of demo_env "''https://x/data.csv''" ?csv 2 0 "''a,b''"]
      download_file_cap [of demo_env "''https://x/choices.json''" ?choices 5000000 0
        "''pick one''"]
      download_file_cap [of demo_env "''https://x/more.json''" _ 5000000 _ _ _ "''{}''"
        "''application/json''"]
      gone big csv choices json
    by simp
qed

text \<open>
  Two replies the sample server gives. The one with status 300, which is not a success
  status, is downloaded and its bytes returned. The one with status 404 announces nine
  million bytes, above the cap of five million, and fails with the \<^verbatim>\<open>HTTPError\<close>,
  not with the \<^verbatim>\<open>ValueError\<close> for a file too large.
\<close>

theorem download_file_counterexample:
  "env_get demo_env ''https://x/choices.json''
     = Inr \<lparr>resp_status_code = 300, resp_error_message = [],
            resp_content_length = None,
            resp_content_type = Some ''text/html'', resp_content = Inr ''pick one''\<rparr>
   \<and> fst (download_file demo_env ''https://x/choices.json'' 5000000)
     = Inr (''pick one'', ''text/html'')
   \<and> env_get demo_env ''https://x/gone.pdf''
     = Inr \<lparr>resp_status_code = 404,
            resp_error_message = ''404 Client Error: Not Found'',
            resp_content_length = Some ''9000000'',
            resp_content_type = None, resp_content = Inr []\<rparr>
   \<and> env_int demo_env ''9000000'' = Inr 9000000
   \<and> fst (download_file demo_env ''https://x/gone.pdf'' 5000000)
     = Inl (HTTPError ''404 Client Error: Not Found'')
   \<and> fst (download_file demo_env ''https://x/gone.pdf'' 5000000)
     \<noteq> Inl (ValueError ''Remote file too large'')"
  by (simp add: download_file_def raise_for_status_def content_length_def demo_env_def
      demo_get_def)

section \<open>Text of a PDF\<close>

lemma page_texts_all:
  "page_texts (map Inr ts) texts = Inr (texts @ map (\<lambda>t. case t of None \<Rightarrow> [] | Some s \<Rightarrow> s) ts)"
  by (induction ts arbitrary: texts) simp_all

lemma page_texts_raises:
  "Inl e \<in> set pages \<Longrightarrow> \<exists>e'. page_texts pages texts = Inl e'"
  by (induction pages arbitrary: texts) (auto split: sum.splits)

text \<open>
  C8. \<^verbatim>\<open>extract_text_from_pdf_bytes\<close> returns \<^verbatim>\<open>None\<close> when opening the document
  raises and when extracting a page raises. When every page is read, it returns the
  page texts in page order joined by two newlines, a page without text (\<^verbatim>\<open>None\<close>)
  standing as the empty string.
\<close>

theorem extract_text_pages:
  "(env_pdf_pages E pdf_bytes = Inl e \<longrightarrow> extract_text_from_pdf_bytes E pdf_bytes = None)
   \<and> (env_pdf_pages E pdf_bytes = Inr pages \<and> Inl e \<in> set pages \<longrightarrow>
        extract_text_from_pdf_bytes E pdf_bytes = None)
   \<and> (env_pdf_pages E pdf_bytes = Inr (map Inr ts) \<longrightarrow>
        extract_text_from_pdf_bytes E pdf_bytes =
          Some (py_join [CHR 0x0A, CHR 0x0A]
                  (map (\<lambda>t. case t of None \<Rightarrow> [] | Some s \<Rightarrow> s) ts)))"
proof (intro conjI impI)
  assume "env_pdf_pages E pdf_bytes = Inl e"
  then show "extract_text_from_pdf_bytes E pdf_bytes = None"
    by (simp add: extract_text_from_pdf_bytes_def)
next
  assume a: "env_pdf_pages E pdf_bytes = Inr pages \<and> Inl e \<in> set pages"
  then obtain e' where "page_texts pages [] = Inl e'"
    using page_texts_raises by blast
  then show "extract_text_from_pdf_bytes E pdf_bytes = None"
    using a by (simp add: extract_text_from_pdf_bytes_def)
next
  assume "env_pdf_pages E pdf_bytes = Inr (map Inr ts)"
  then show "extract_text_from_pdf_bytes E pdf_bytes =
      Some (py_join [CHR 0x0A, CHR 0x0A] (map (\<lambda>t. case t of None \<Rightarrow> [] | Some s \<Rightarrow> s) ts))"
    by (simp add: extract_text_from_pdf_bytes_def page_texts_all)
qed

theorem extract_text_pages_witness:
  "extract_text_from_pdf_bytes demo_env ''not a pdf'' = None
   \<and> extract_text_from_pdf_bytes demo_env ''%PDF-1.4'' = None
   \<and> extract_text_from_pdf_bytes demo_env ''%PDF-1.7''
       = Some (''one'' @ [CHR 0x0A, CHR 0x0A] @ [] @ [CHR 0x0A, CHR 0x0A] @ ''three'')"
proof -
  have broken: "env_pdf_pages demo_env ''not a pdf'' = Inl (OtherError ''No /Root object'')"
    by (simp add: demo_env_def)
  have page: "env_pdf_pages demo_env ''%PDF-1.4'' = Inr [Inr (Some ''one''), Inl (OtherError ''bad page'')]
      \<and> Inl (OtherError ''bad page'') \<in> set [Inr (Some ''one''), Inl (OtherError ''bad page'')]"
    by (simp add: demo_env_def)
  have good: "env_pdf_pages demo_env ''%PDF-1.7'' = Inr (map Inr [Some ''one'', None, Some ''three''])"
    by (simp add: demo_env_def)
  show ?thesis
    using extract_text_pages [of demo_env "''not a pdf''" "OtherError ''No /Root object''"]
      extract_text_pages [of demo_env "''%PDF-1.4''" "OtherError ''bad page''"
        "[Inr (Some ''one''), Inl (OtherError ''bad page'')]"]
      extract_text_pages [of demo_env "''%PDF-1.7''" _ _ "[Some ''one'', None, Some ''three'']"]
      broken page good
    by simp
qed

section \<open>The submitter\<close>

lemma map_of_dict_set:
  "map_of (dict_set d k v) k' = (if k' = k then Some v else map_of d k')"
  by (induction d) auto

lemma dict_get_dict_set:
  "dict_get (dict_set d k v) k' = (if k' = k then v else dict_get d k')"
  by (simp add: dict_get_def map_of_dict_set)

lemma length_set_item: "length (set_item h a k v) = length h"
  by (simp add: set_item_def)

lemma heap_get_set_item:
  "heap_get (set_item h a k v) b =
     (if b = a \<and> a < length h then dict_set (heap_get h a) k v else heap_get h b)"
  by (auto simp: heap_get_def set_item_def)

lemma py_truthy_append: "py_truthy h v \<Longrightarrow> py_truthy (h @ [d]) v"
  by (cases v) (auto simp: heap_get_def nth_append split: if_splits)

lemma identified_fields:
  assumes "p < length h"
  shows "map_of (heap_get (identified h p email secret) p) ''email'' = Some email"
    and "map_of (heap_get (identified h p email secret) p) ''secret'' = Some secret"
    and "k \<noteq> ''email'' \<Longrightarrow> k \<noteq> ''secret'' \<Longrightarrow>
      dict_get (heap_get (identified h p email secret) a) k = dict_get (heap_get h a) k"
    and "length (identified h p email secret) = length h"
  using assms
  by (simp_all add: identified_def heap_get_set_item map_of_dict_set dict_get_dict_set
      length_set_item)

lemma attached_fields:
  shows "k \<noteq> ''attachment_base64'' \<Longrightarrow>
      map_of (heap_get (attached h s p) a) k = map_of (heap_get h a) k"
    and "k \<noteq> ''attachment_base64'' \<Longrightarrow>
      dict_get (heap_get (attached h s p) a) k = dict_get (heap_get h a) k"
  by (simp_all add: attached_def Let_def heap_get_set_item map_of_dict_set dict_get_dict_set)

lemma submit_with_payload:
  assumes "payload_for h s email secret = (PRef p, h1)"
  shows "submit E (PRef s) email secret h =
     (if \<not> py_truthy (identified h1 p email secret) (dict_get (heap_get h s) ''submit_url'')
      then \<lparr>rs_outcome = NoSubmitUrl (PRef s), rs_status = 200,
            rs_heap = identified h1 p email secret, rs_events = []\<rparr>
      else
        (case env_post E (dict_get (heap_get h s) ''submit_url'')
                (heap_get (attached (identified h1 p email secret) s p) p)
                (attached (identified h1 p email secret) s p) of
           Inl e \<Rightarrow>
             \<lparr>rs_outcome = ServerError (exn_message e), rs_status = 500,
              rs_heap = attached (identified h1 p email secret) s p,
              rs_events = [HttpPost (dict_get (heap_get h s) ''submit_url'')
                 (heap_get (attached (identified h1 p email secret) s p) p)]\<rparr>
         | Inr resp \<Rightarrow>
             \<lparr>rs_outcome = Submitted (submit_response resp) (reply_status resp)
                (dict_get (heap_get h s) ''submit_url'') (PRef s),
              rs_status = 200,
              rs_heap = attached (identified h1 p email secret) s p,
              rs_events = [HttpPost (dict_get (heap_get h s) ''submit_url'')
                 (heap_get (attached (identified h1 p email secret) s p) p)]\<rparr>))"
  by (simp add: submit_def assms Let_def)

text \<open>Whatever the run, it posts at most once, and then the payload object as it is.\<close>

lemma submit_events:
  assumes "payload_for h s email secret = (PRef p, h1)"
  shows "rs_events (submit E (PRef s) email secret h) = []
    \<or> rs_events (submit E (PRef s) email secret h)
        = [HttpPost (dict_get (heap_get h s) ''submit_url'')
             (heap_get (attached (identified h1 p email secret) s p) p)]"
  unfolding submit_with_payload [OF assms] by (simp split: sum.split)

lemma submit_heap:
  assumes "payload_for h s email secret = (PRef p, h1)"
  shows "rs_heap (submit E (PRef s) email secret h) = identified h1 p email secret
    \<or> rs_heap (submit E (PRef s) email secret h) = attached (identified h1 p email secret) s p"
  unfolding submit_with_payload [OF assms] by (simp split: sum.split)

lemma submit_outcome:
  assumes "payload_for h s email secret = (PRef p, h1)"
  shows "rs_outcome (submit E (PRef s) email secret h) = NoSubmitUrl (PRef s)
       \<or> (\<exists>j st u. rs_outcome (submit E (PRef s) email secret h) = Submitted j st u (PRef s))
       \<or> (\<exists>m. rs_outcome (submit E (PRef s) email secret h) = ServerError m)"
  unfolding submit_with_payload [OF assms] by (simp split: sum.split)

lemma posted_identity:
  assumes "payload_for h s email secret = (PRef p, h1)" and "p < length h1"
    and "HttpPost u body \<in> set (rs_events (submit E (PRef s) email secret h))"
  shows "map_of body ''email'' = Some email \<and> map_of body ''secret'' = Some secret"
proof -
  have "body = heap_get (attached (identified h1 p email secret) s p) p"
    using submit_events [OF assms(1), of E] assms(3) by auto
  then show ?thesis
    using assms(2) by (simp add: attached_fields identified_fields)
qed

lemma synthesized_payload:
  assumes "dict_get (heap_get h s) ''payload'' = PNone"
    and "dict_get (heap_get h s) ''answer'' \<noteq> PNone"
    and "py_truthy h (dict_get (heap_get h s) ''submit_url'')"
  shows "payload_for h s email secret =
     (PRef (length h),
      h @ [[(''email'', email), (''secret'', secret),
            (''answer'', dict_get (heap_get h s) ''answer'')]])"
  using assms by (simp add: payload_for_def new_dict_def)

lemma synthesized_post:
  assumes "dict_get (heap_get h s) ''payload'' = PNone"
    and "dict_get (heap_get h s) ''answer'' \<noteq> PNone"
    and "py_truthy h (dict_get (heap_get h s) ''submit_url'')"
  shows "\<exists>body. rs_events (submit E (PRef s) email secret h)
        = [HttpPost (dict_get (heap_get h s) ''submit_url'') body]
      \<and> (body = [(''email'', email), (''secret'', secret),
                  (''answer'', dict_get (heap_get h s) ''answer'')]
         \<or> (\<exists>a. body = [(''email'', email), (''secret'', secret),
                  (''answer'', dict_get (heap_get h s) ''answer''),
                  (''attachment_base64'', a)]))"
proof -
  let ?d = "[(''email'', email), (''secret'', secret),
            (''answer'', dict_get (heap_get h s) ''answer'')]"
  have h2: "identified (h @ [?d]) (length h) email secret = h @ [?d]"
    by (simp add: identified_def set_item_def heap_get_def)
  have url: "py_truthy (h @ [?d]) (dict_get (heap_get h s) ''submit_url'')"
    using assms(3) by (rule py_truthy_append)
  have body: "heap_get (attached (h @ [?d]) s (length h)) (length h) = ?d
    \<or> (\<exists>a. heap_get (attached (h @ [?d]) s (length h)) (length h)
          = ?d @ [(''attachment_base64'', a)])"
    by (simp add: attached_def Let_def heap_get_set_item) (simp add: heap_get_def)
  show ?thesis
    unfolding submit_with_payload [OF synthesized_payload [OF assms]] h2
    using url body by (auto split: sum.split)
qed

lemma echoed_payload:
  assumes "dict_get (heap_get h s) ''payload'' = PRef p" and "p < length h"
  shows "dict_get (heap_get (rs_heap (submit E (PRef s) email secret h)) s) ''payload'' = PRef p
    \<and> map_of (heap_get (rs_heap (submit E (PRef s) email secret h)) p) ''email'' = Some email
    \<and> map_of (heap_get (rs_heap (submit E (PRef s) email secret h)) p) ''secret'' = Some secret"
proof -
  have payload: "payload_for h s email secret = (PRef p, h)"
    using assms(1) by (simp add: payload_for_def)
  show ?thesis
    using submit_heap [OF payload, of E] assms
    by (auto simp: attached_fields identified_fields)
qed

lemma no_submit_url:
  assumes "fst (payload_for h s email secret) = PRef p"
    and "dict_get (heap_get h s) ''submit_url'' = PNone"
  shows "submit E (PRef s) email secret h =
    \<lparr>rs_outcome = NoSubmitUrl (PRef s), rs_status = 200,
     rs_heap = identified (snd (payload_for h s email secret)) p email secret, rs_events = []\<rparr>"
proof -
  obtain h1 where "payload_for h s email secret = (PRef p, h1)"
    using assms(1) by (cases "payload_for h s email secret") simp
  then show ?thesis
    using assms(2) by (simp add: submit_with_payload)
qed

text \<open>
  C1. When the solution has no payload (\<^verbatim>\<open>None\<close>), an answer other than \<^verbatim>\<open>None\<close> and a
  truthy \<^verbatim>\<open>submit_url\<close>, the payload is a fresh dict with exactly \<^verbatim>\<open>email\<close>, \<^verbatim>\<open>secret\<close>
  and \<^verbatim>\<open>answer\<close>, the first two the caller's, and it is posted once, with at most an
  \<^verbatim>\<open>attachment_base64\<close> added. Whenever a payload object exists, synthesized or the
  model's, the body of every POST has the caller's \<^verbatim>\<open>email\<close> and \<^verbatim>\<open>secret\<close>.
\<close>

theorem caller_identity_in_payload:
  "(dict_get (heap_get h s) ''payload'' = PNone \<and>
    dict_get (heap_get h s) ''answer'' \<noteq> PNone \<and>
    py_truthy h (dict_get (heap_get h s) ''submit_url'') \<longrightarrow>
      payload_for h s email secret =
        (PRef (length h),
         h @ [[(''email'', email), (''secret'', secret),
               (''answer'', dict_get (heap_get h s) ''answer'')]])
      \<and> (\<exists>posted. rs_events (submit E (PRef s) email secret h)
            = [HttpPost (dict_get (heap_get h s) ''submit_url'') posted]
          \<and> (posted = [(''email'', email), (''secret'', secret),
                        (''answer'', dict_get (heap_get h s) ''answer'')]
             \<or> (\<exists>a. posted = [(''email'', email), (''secret'', secret),
                        (''answer'', dict_get (heap_get h s) ''answer''),
                        (''attachment_base64'', a)]))))
   \<and> (payload_for h s email secret = (PRef p, h1) \<and> p < length h1 \<and>
       HttpPost u body \<in> set (rs_events (submit E (PRef s) email secret h)) \<longrightarrow>
         map_of body ''email'' = Some email \<and> map_of body ''secret'' = Some secret)"
  using synthesized_payload [of h s email secret] synthesized_post [of h s E email secret]
    posted_identity [of h s email secret p h1 u body E]
  by blast

theorem caller_identity_in_payload_witness:
  "payload_for blue_heap 0 (PStr ''a@b.com'') (PStr ''s'') =
     (PRef 1,
      blue_heap @ [[(''email'', PStr ''a@b.com''), (''secret'', PStr ''s''),
                    (''answer'', PStr ''blue'')]])
   \<and> rs_events (submit demo_env (PRef 0) (PStr ''a@b.com'') (PStr ''s'') blue_heap)
       = [HttpPost (PStr ''https://x/test'')
            [(''email'', PStr ''a@b.com''), (''secret'', PStr ''s''),
             (''answer'', PStr ''blue'')]]
   \<and> rs_events (submit demo_env (PRef 1) (PStr ''a@b.com'') (PStr ''s'') forged_heap)
       = [HttpPost (PStr ''https://x/test'')
            [(''email'', PStr ''a@b.com''), (''secret'', PStr ''s''), (''answer'', PInt 7),
             (''attachment_base64'', PStr ''UEs='')]]
   \<and> map_of [(''email'', PStr ''a@b.com''), (''secret'', PStr ''s''), (''answer'', PInt 7),
              (''attachment_base64'', PStr ''UEs='')] ''email'' = Some (PStr ''a@b.com'')
   \<and> map_of [(''email'', PStr ''a@b.com''), (''secret'', PStr ''s''), (''answer'', PInt 7),
              (''attachment_base64'', PStr ''UEs='')] ''secret'' = Some (PStr ''s'')"
proof -
  have blue: "dict_get (heap_get blue_heap 0) ''payload'' = PNone"
    "dict_get (heap_get blue_heap 0) ''answer'' = PStr ''blue''"
    "dict_get (heap_get blue_heap 0) ''submit_url'' = PStr ''https://x/test''"
    "length blue_heap = 1"
    by (simp_all add: blue_heap_def new_dict_def heap_get_def dict_get_def)
  have sent: "rs_events (submit demo_env (PRef 0) (PStr ''a@b.com'') (PStr ''s'') blue_heap)
      = [HttpPost (PStr ''https://x/test'')
           [(''email'', PStr ''a@b.com''), (''secret'', PStr ''s''),
            (''answer'', PStr ''blue'')]]"
    by (simp add: blue_heap_def run_defs demo_defs)
  have forged: "payload_for forged_heap 1 (PStr ''a@b.com'') (PStr ''s'') = (PRef 0, forged_heap)"
    "0 < length forged_heap"
    by (simp_all add: forged_heap_def payload_for_def new_dict_def heap_get_def dict_get_def
        Let_def)
  have posted: "rs_events (submit demo_env (PRef 1) (PStr ''a@b.com'') (PStr ''s'') forged_heap)
      = [HttpPost (PStr ''https://x/test'')
           [(''email'', PStr ''a@b.com''), (''secret'', PStr ''s''), (''answer'', PInt 7),
            (''attachment_base64'', PStr ''UEs='')]]"
    by (simp add: forged_heap_def run_defs demo_defs)
  show ?thesis
    using caller_identity_in_payload [of blue_heap 0 "PStr ''a@b.com''" "PStr ''s''" demo_env]
      caller_identity_in_payload [of forged_heap 1 "PStr ''a@b.com''" "PStr ''s''" demo_env
        0 forged_heap "PStr ''https://x/test''"
        "[(''email'', PStr ''a@b.com''), (''secret'', PStr ''s''), (''answer'', PInt 7),
          (''attachment_base64'', PStr ''UEs='')]"]
      blue sent forged posted
    by simp
qed

text \<open>
  C6. When the run yields a payload object and the solution's \<^verbatim>\<open>submit_url\<close> is absent
  or \<^verbatim>\<open>null\<close> (both read as \<^verbatim>\<open>None\<close>), the answer is \<^verbatim>\<open>no_submit_url\<close> with status 200,
  carrying the solution, and no call has been made.
\<close>

theorem no_submit_url_outcome:
  "fst (payload_for h s email secret) = PRef p \<and>
   dict_get (heap_get h s) ''submit_url'' = PNone \<longrightarrow>
     rs_outcome (submit E (PRef s) email secret h) = NoSubmitUrl (PRef s) \<and>
     rs_status (submit E (PRef s) email secret h) = 200 \<and>
     rs_events (submit E (PRef s) email secret h) = []"
  using no_submit_url [of h s email secret p E] by simp

theorem no_submit_url_outcome_witness:
  "rs_outcome (submit demo_env (PRef 1) (PStr ''a@b.com'') (PStr ''s'') unsent_heap)
     = NoSubmitUrl (PRef 1) \<and>
   rs_status (submit demo_env (PRef 1) (PStr ''a@b.com'') (PStr ''s'') unsent_heap) = 200 \<and>
   rs_events (submit demo_env (PRef 1) (PStr ''a@b.com'') (PStr ''s'') unsent_heap) = []"
proof -
  have "fst (payload_for unsent_heap 1 (PStr ''a@b.com'') (PStr ''s'')) = PRef 0"
    and "dict_get (heap_get unsent_heap 1) ''submit_url'' = PNone"
    by (simp_all add: unsent_heap_def payload_for_def new_dict_def heap_get_def dict_get_def
        Let_def)
  then show ?thesis
    using no_submit_url_outcome [of unsent_heap 1 "PStr ''a@b.com''" "PStr ''s''" 0 demo_env]
    by simp
qed

text \<open>
  C10. When the solution holds a payload object, every answer the submitter gives is
  \<^verbatim>\<open>no_submit_url\<close> or the submission result, both echoing the solution itself, or
  \<^verbatim>\<open>server_error\<close>; and in the heap the answer is read from, the solution still holds
  that same object, whose \<^verbatim>\<open>email\<close> and \<^verbatim>\<open>secret\<close> are now the caller's.
\<close>

theorem echoed_solution_identity:
  "dict_get (heap_get h s) ''payload'' = PRef p \<and> p < length h \<longrightarrow>
     dict_get (heap_get (rs_heap (submit E (PRef s) email secret h)) s) ''payload'' = PRef p
     \<and> map_of (heap_get (rs_heap (submit E (PRef s) email secret h)) p) ''email'' = Some email
     \<and> map_of (heap_get (rs_heap (submit E (PRef s) email secret h)) p) ''secret'' = Some secret
     \<and> (rs_outcome (submit E (PRef s) email secret h) = NoSubmitUrl (PRef s)
        \<or> (\<exists>j st u. rs_outcome (submit E (PRef s) email secret h) = Submitted j st u (PRef s))
        \<or> (\<exists>m. rs_outcome (submit E (PRef s) email secret h) = ServerError m))"
proof
  assume a: "dict_get (heap_get h s) ''payload'' = PRef p \<and> p < length h"
  then have "payload_for h s email secret = (PRef p, h)"
    by (simp add: payload_for_def)
  then show "dict_get (heap_get (rs_heap (submit E (PRef s) email secret h)) s) ''payload'' = PRef p
     \<and> map_of (heap_get (rs_heap (submit E (PRef s) email secret h)) p) ''email'' = Some email
     \<and> map_of (heap_get (rs_heap (submit E (PRef s) email secret h)) p) ''secret'' = Some secret
     \<and> (rs_outcome (submit E (PRef s) email secret h) = NoSubmitUrl (PRef s)
        \<or> (\<exists>j st u. rs_outcome (submit E (PRef s) email secret h) = Submitted j st u (PRef s))
        \<or> (\<exists>m. rs_outcome (submit E (PRef s) email secret h) = ServerError m))"
    using a echoed_payload [of h s p E email secret] submit_outcome [of h s email secret p h E]
    by blast
qed

theorem echoed_solution_identity_witness:
  "heap_get forged_heap 0
     = [(''email'', PStr ''model@guess''), (''secret'', PStr ''guess''), (''answer'', PInt 7)]
   \<and> rs_outcome (submit demo_env (PRef 1) (PStr ''a@b.com'') (PStr ''s'') forged_heap)
     = Submitted (JObj [(''correct'', JBool True)]) 200 (PStr ''https://x/test'') (PRef 1)
   \<and> dict_get (heap_get (rs_heap (submit demo_env (PRef 1) (PStr ''a@b.com'') (PStr ''s'')
        forged_heap)) 1) ''payload'' = PRef 0
   \<and> heap_get (rs_heap (submit demo_env (PRef 1) (PStr ''a@b.com'') (PStr ''s'') forged_heap)) 0
     = [(''email'', PStr ''a@b.com''), (''secret'', PStr ''s''), (''answer'', PInt 7),
        (''attachment_base64'', PStr ''UEs='')]
   \<and> rs_outcome (submit demo_env (PRef 1) (PStr ''a@b.com'') (PStr ''s'') unsent_heap)
     = NoSubmitUrl (PRef 1)
   \<and> map_of (heap_get (rs_heap (submit demo_env (PRef 1) (PStr ''a@b.com'') (PStr ''s'')
        unsent_heap)) 0) ''email'' = Some (PStr ''a@b.com'')
   \<and> map_of (heap_get (rs_heap (submit demo_env (PRef 1) (PStr ''a@b.com'') (PStr ''s'')
        unsent_heap)) 0) ''secret'' = Some (PStr ''s'')"
proof -
  have forged: "dict_get (heap_get forged_heap 1) ''payload'' = PRef 0 \<and> 0 < length forged_heap"
    by (simp add: forged_heap_def new_dict_def heap_get_def dict_get_def)
  have unsent: "dict_get (heap_get unsent_heap 1) ''payload'' = PRef 0 \<and> 0 < length unsent_heap"
    by (simp add: unsent_heap_def new_dict_def heap_get_def dict_get_def)
  have run: "heap_get forged_heap 0
     = [(''email'', PStr ''model@guess''), (''secret'', PStr ''guess''), (''answer'', PInt 7)]"
    "rs_outcome (submit demo_env (PRef 1) (PStr ''a@b.com'') (PStr ''s'') forged_heap)
     = Submitted (JObj [(''correct'', JBool True)]) 200 (PStr ''https://x/test'') (PRef 1)"
    "heap_get (rs_heap (submit demo_env (PRef 1) (PStr ''a@b.com'') (PStr ''s'') forged_heap)) 0
     = [(''email'', PStr ''a@b.com''), (''secret'', PStr ''s''), (''answer'', PInt 7),
        (''attachment_base64'', PStr ''UEs='')]"
    "rs_outcome (submit demo_env (PRef 1) (PStr ''a@b.com'') (PStr ''s'') unsent_heap)
     = NoSubmitUrl (PRef 1)"
    by (simp_all add: forged_heap_def unsent_heap_def run_defs demo_defs)
  show ?thesis
    using echoed_solution_identity [of forged_heap 1 0 demo_env "PStr ''a@b.com''" "PStr ''s''"]
      echoed_solution_identity [of unsent_heap 1 0 demo_env "PStr ''a@b.com''" "PStr ''s''"]
      forged unsent run
    by simp
qed

section \<open>The renderer and the collector\<close>























end
